theory Spec2Isabelle
  imports Complex_Main
begin

section \<open>Data model (src/types.ts, src/components/AnnotationCanvas.tsx)\<close>

text \<open>
  Numbers are real numbers; NaN and \<open>\<plusminus>Infinity\<close> do not exist, and wherever the source
  can produce one of them (a division by zero, \<open>Math.min\<close> of no arguments) the model says
  so explicitly, see \<open>Outside\<close> below. The handlers are written with the exact operations
  of the reals, and the theorems about them restate the sums and comparisons that the
  code makes, in its order. JavaScript rounds every sum to a double: where a property
  depends on a law of exact addition (the bounds after normalising or translating an
  element), the geometry functions are taken with the addition as a parameter and
  studied with \<open>add64\<close>, the addition of doubles, see the section on double-precision
  arithmetic.
\<close>

datatype Tool =
    Hand | Selection | Rectangle | Diamond | Ellipse | Arrow | Line | Pencil | Text
  | Image | Eraser | Long_position | Short_position | Path | Laser

record Point =
  px :: real
  py :: real

datatype StrokeStyle = Solid | Dashed | Dotted

text \<open>An absent arrowhead field and the value \<open>null\<close> are both \<open>None\<close>.\<close>

datatype Arrowhead = ArrowHead | DotHead

datatype TextAlign = AlignLeft | AlignCenter | AlignRight

record CustomData =
  entryRatio :: "real option"

text \<open>
  \<open>DrawingElement\<close>: every optional field (\<open>width?\<close>, \<open>points?\<close>, ...) is an option,
  \<open>None\<close> standing for \<open>undefined\<close>.
\<close>

record DrawingElement =
  e_id :: string
  e_type :: Tool
  e_x :: real
  e_y :: real
  e_width :: "real option"
  e_height :: "real option"
  e_points :: "Point list option"
  e_text :: "string option"
  e_strokeColor :: string
  e_backgroundColor :: string
  e_strokeWidth :: real
  e_strokeStyle :: "StrokeStyle option"
  e_opacity :: "real option"
  e_startArrowhead :: "Arrowhead option"
  e_endArrowhead :: "Arrowhead option"
  e_imageData :: "string option"
  e_fontSize :: "real option"
  e_fontFamily :: "string option"
  e_fontWeight :: "string option"
  e_fontStyle :: "string option"
  e_textAlign :: "TextAlign option"
  e_customData :: "CustomData option"

datatype Mode = Mode_none | Drawing | Moving | Resizing | Panning | Selection_box

datatype ResizeHandle = TL | TR | BL | BR | N | S | Entry

text \<open>The string literal that each resize handle is in the source.\<close>

fun handleName :: "ResizeHandle \<Rightarrow> string" where
  "handleName TL = ''tl''"
| "handleName TR = ''tr''"
| "handleName BL = ''bl''"
| "handleName BR = ''br''"
| "handleName N = ''n''"
| "handleName S = ''s''"
| "handleName Entry = ''entry''"

text \<open>\<open>handle.includes(c)\<close> for a one-character string \<open>c\<close>.\<close>

definition handle_includes :: "ResizeHandle \<Rightarrow> char \<Rightarrow> bool" where
  "handle_includes h c = (c \<in> set (handleName h))"

record InteractionState =
  mode :: Mode
  resizeHandle :: "ResizeHandle option"
  startMousePos :: Point
  startElementSnapshot :: "DrawingElement option"
  startElementSnapshots :: "(string \<rightharpoonup> DrawingElement) option"

record SelectionBox =
  sb_start :: Point
  sb_current :: Point

text \<open>
  The component's state (the \<open>useState\<close> cells that the modelled functions read or
  write) together with the property \<open>isDarkMode\<close>.
\<close>

record State =
  tool :: Tool
  lockTool :: bool
  elements :: "DrawingElement list"
  currentElement :: "DrawingElement option"
  clipboard :: "DrawingElement list"
  history :: "DrawingElement list list"
  historyIndex :: nat
  strokeColor :: string
  strokeWidth :: real
  strokeStyle :: StrokeStyle
  opacity :: real
  startArrowhead :: "Arrowhead option"
  endArrowhead :: "Arrowhead option"
  eraserSize :: real
  panOffset :: Point
  scale :: real
  isSpacePressed :: bool
  selectedElementIds :: "string list"
  hoveredElementId :: "string option"
  selectionBox :: "SelectionBox option"
  interactionState :: InteractionState
  isDarkMode :: bool

text \<open>
  A step of the model ends in \<open>Inl\<close> where the JavaScript goes on with a value that the
  model's types do not have:
  \<^item> \<open>Zero_scale\<close>: \<open>scale\<close> is 0, so a division by it is \<open>\<plusminus>Infinity\<close> or NaN
    (both setters of \<open>scale\<close> clamp it to \<open>[0.1, 5]\<close>);
  \<^item> \<open>Not_a_number\<close>: \<open>0 / 0\<close>;
  \<^item> \<open>Infinite_bounds\<close>: \<open>Math.min(...[])\<close>, which is \<open>Infinity\<close>;
  \<^item> \<open>Undefined_scene\<close>: \<open>history[i]\<close> read past the end, which is \<open>undefined\<close>.
\<close>

datatype Outside = Zero_scale | Not_a_number | Infinite_bounds | Undefined_scene

definition initialState :: "bool \<Rightarrow> State" where
  "initialState dark =
     \<lparr> tool = Selection, lockTool = False, elements = [], currentElement = None,
       clipboard = [], history = [[]], historyIndex = 0,
       strokeColor = ''#000000'', strokeWidth = 2, strokeStyle = Solid, opacity = 100,
       startArrowhead = None, endArrowhead = None, eraserSize = 30,
       panOffset = \<lparr> px = 0, py = 0 \<rparr>, scale = 1, isSpacePressed = False,
       selectedElementIds = [], hoveredElementId = None, selectionBox = None,
       interactionState =
         \<lparr> mode = Mode_none, resizeHandle = None, startMousePos = \<lparr> px = 0, py = 0 \<rparr>,
           startElementSnapshot = None, startElementSnapshots = None \<rparr>,
       isDarkMode = dark \<rparr>"

definition HANDLE_SIZE :: real where
  "HANDLE_SIZE = 8"

definition effectiveTool :: "State \<Rightarrow> Tool" where
  "effectiveTool s = (if isSpacePressed s then Hand else tool s)"

section \<open>Geometry helpers\<close>

record Bounds =
  minX :: real
  maxX :: real
  minY :: real
  maxY :: real

text \<open>\<open>Math.min(v, ...vs)\<close> and \<open>Math.max(v, ...vs)\<close>: at least one argument.\<close>

definition Math_min :: "real \<Rightarrow> real list \<Rightarrow> real" where
  "Math_min v vs = fold min vs v"

definition Math_max :: "real \<Rightarrow> real list \<Rightarrow> real" where
  "Math_max v vs = fold max vs v"

text \<open>The default \<open>= 0\<close> of a destructured field, and \<open>field || 0\<close> (0 is falsy).\<close>

definition orZero :: "real option \<Rightarrow> real" where
  "orZero v = (case v of None \<Rightarrow> 0 | Some w \<Rightarrow> w)"

definition getElementBounds :: "DrawingElement \<Rightarrow> Bounds" where
  "getElementBounds element =
     (if e_type element = Path \<or> e_type element = Pencil then
        (case e_points element of
           None \<Rightarrow> \<lparr> minX = e_x element, maxX = e_x element,
                     minY = e_y element, maxY = e_y element \<rparr>
         | Some [] \<Rightarrow> \<lparr> minX = e_x element, maxX = e_x element,
                        minY = e_y element, maxY = e_y element \<rparr>
         | Some (p # ps) \<Rightarrow>
             \<lparr> minX = Math_min (px p) (map px ps), maxX = Math_max (px p) (map px ps),
               minY = Math_min (py p) (map py ps), maxY = Math_max (py p) (map py ps) \<rparr>)
      else
        (let x = e_x element; y = e_y element;
             width = orZero (e_width element); height = orZero (e_height element)
         in \<lparr> minX = min x (x + width), maxX = max x (x + width),
              minY = min y (y + height), maxY = max y (y + height) \<rparr>))"

definition isPointInElement :: "State \<Rightarrow> real \<Rightarrow> real \<Rightarrow> DrawingElement \<Rightarrow> bool" where
  "isPointInElement s x y element =
     (let buffer = 10 / scale s; bounds = getElementBounds element
      in x \<ge> minX bounds - buffer \<and> x \<le> maxX bounds + buffer \<and>
         y \<ge> minY bounds - buffer \<and> y \<le> maxY bounds + buffer)"

definition resizableTypes :: "Tool list" where
  "resizableTypes = [Rectangle, Diamond, Ellipse, Image, Long_position, Short_position]"

definition getResizeHandleAtPosition ::
  "State \<Rightarrow> real \<Rightarrow> real \<Rightarrow> DrawingElement \<Rightarrow> ResizeHandle option" where
  "getResizeHandleAtPosition s x y element =
     (if e_type element \<notin> set resizableTypes then None
      else
        let ex = e_x element; ey = e_y element;
            w = orZero (e_width element); h = orZero (e_height element);
            handleRadius = (HANDLE_SIZE / 2) / scale s;
            x1 = min ex (ex + w); x2 = max ex (ex + w);
            y1 = min ey (ey + h); y2 = max ey (ey + h)
        in if \<bar>x - x1\<bar> < handleRadius \<and> \<bar>y - y1\<bar> < handleRadius then Some TL
           else if \<bar>x - x2\<bar> < handleRadius \<and> \<bar>y - y1\<bar> < handleRadius then Some TR
           else if \<bar>x - x1\<bar> < handleRadius \<and> \<bar>y - y2\<bar> < handleRadius then Some BL
           else if \<bar>x - x2\<bar> < handleRadius \<and> \<bar>y - y2\<bar> < handleRadius then Some BR
           else if e_type element = Long_position \<or> e_type element = Short_position then
             (let midX = x1 + (x2 - x1) / 2;
                  ratio = (case e_customData element of
                             None \<Rightarrow> 0.5
                           | Some c \<Rightarrow> (case entryRatio c of None \<Rightarrow> 0.5 | Some r \<Rightarrow> r));
                  entryY = y1 + \<bar>h\<bar> * ratio
              in if \<bar>x - midX\<bar> < handleRadius \<and> \<bar>y - y1\<bar> < handleRadius then Some N
                 else if \<bar>x - midX\<bar> < handleRadius \<and> \<bar>y - y2\<bar> < handleRadius then Some S
                 else if \<bar>x - x2\<bar> < handleRadius \<and> \<bar>y - entryY\<bar> < handleRadius
                   then Some Entry
                 else None)
           else None)"

definition normalizeElement :: "DrawingElement \<Rightarrow> DrawingElement" where
  "normalizeElement element =
     (if e_type element \<in> set resizableTypes then
        (let x = e_x element; y = e_y element;
             width = orZero (e_width element); height = orZero (e_height element)
         in if width < 0 \<or> height < 0 then
              element\<lparr> e_x := (if width < 0 then x + width else x),
                       e_y := (if height < 0 then y + height else y),
                       e_width := Some \<bar>width\<bar>,
                       e_height := Some \<bar>height\<bar> \<rparr>
            else element)
      else element)"

section \<open>History (pushToHistory, undo, redo)\<close>

definition pushToHistory :: "DrawingElement list \<Rightarrow> State \<Rightarrow> State" where
  "pushToHistory newElements s =
     (let newHistory = take (historyIndex s + 1) (history s) @ [newElements]
      in s\<lparr> history := newHistory, historyIndex := length newHistory - 1 \<rparr>)"

text \<open>
  \<open>undo\<close> reads \<open>history[historyIndex - 1]\<close> without comparing the index with the length
  of the history; past the end the read is \<open>undefined\<close>.
\<close>

definition undo :: "State \<Rightarrow> Outside + State" where
  "undo s =
     (if historyIndex s > 0 then
        (if historyIndex s - 1 < length (history s) then
           Inr (s\<lparr> historyIndex := historyIndex s - 1,
                   elements := history s ! (historyIndex s - 1),
                   selectedElementIds := [] \<rparr>)
         else Inl Undefined_scene)
      else Inr s)"

text \<open>
  In \<open>redo\<close> the guard \<open>historyIndex < history.length - 1\<close> (over the integers: the
  length may be 0) keeps the read inside the history.
\<close>

definition redo :: "State \<Rightarrow> State" where
  "redo s =
     (if int (historyIndex s) < int (length (history s)) - 1 then
        s\<lparr> historyIndex := historyIndex s + 1,
            elements := history s ! (historyIndex s + 1),
            selectedElementIds := [] \<rparr>
      else s)"

section \<open>Copy and paste\<close>

text \<open>The JSON round trip of \<open>handleCopy\<close> copies the elements; values are unchanged.\<close>

definition handleCopy :: "State \<Rightarrow> State" where
  "handleCopy s =
     (if length (selectedElementIds s) > 0 then
        (let els = filter (\<lambda>e. e_id e \<in> set (selectedElementIds s)) (elements s)
         in if length els > 0 then s\<lparr> clipboard := els \<rparr> else s)
      else s)"

text \<open>
  The body of the \<open>clipboard.map\<close> callback of \<open>handlePaste\<close>, given the identifier
  generated for the item.
\<close>

definition pasteItem :: "real \<Rightarrow> string \<Rightarrow> DrawingElement \<Rightarrow> DrawingElement" where
  "pasteItem offset newId item =
     (let newEl = item\<lparr> e_id := newId, e_x := e_x item + offset, e_y := e_y item + offset \<rparr>
      in if e_type newEl = Path \<or> e_type newEl = Pencil then
           (case e_points newEl of
              None \<Rightarrow> newEl
            | Some pts \<Rightarrow>
                newEl\<lparr> e_points :=
                  Some (map (\<lambda>p. \<lparr> px = px p + offset, py = py p + offset \<rparr>) pts) \<rparr>)
         else newEl)"

text \<open>
  The identifier of the \<open>i\<close>-th pasted item is
  \<open>Date.now().toString() + Math.random().toString(36).substr(2, 5)\<close>. The clock and the
  random generator are outside the program: \<open>now i\<close> is the string \<open>Date.now().toString()\<close>
  and \<open>rnd i\<close> the string \<open>Math.random().toString(36)\<close> of the \<open>i\<close>-th call.
\<close>

definition pasteId :: "(nat \<Rightarrow> string) \<Rightarrow> (nat \<Rightarrow> string) \<Rightarrow> nat \<Rightarrow> string" where
  "pasteId now rnd i = now i @ take 5 (drop 2 (rnd i))"

definition handlePaste :: "(nat \<Rightarrow> string) \<Rightarrow> (nat \<Rightarrow> string) \<Rightarrow> State \<Rightarrow> Outside + State" where
  "handlePaste now rnd s =
     (if length (clipboard s) > 0 then
        (if scale s = 0 then Inl Zero_scale
         else
           let offset = 20 / scale s;
               newIds = map (pasteId now rnd) [0..<length (clipboard s)];
               pastedElements =
                 map (\<lambda>(i, item). pasteItem offset (pasteId now rnd i) item)
                   (enumerate 0 (clipboard s));
               newElements = elements s @ pastedElements
           in Inr ((pushToHistory newElements (s\<lparr> elements := newElements \<rparr>))
                     \<lparr> selectedElementIds := newIds \<rparr>))
      else Inr s)"

section \<open>Pointer events\<close>

text \<open>
  A mouse event, with the two readings of the environment that the handlers take when it
  arrives: \<open>canvasRect\<close> is the left and top of the canvas's bounding rectangle
  (\<open>None\<close> when \<open>canvasRef.current\<close> is null) and \<open>dateNow\<close> is
  \<open>Date.now().toString()\<close>.
\<close>

record MouseEvent =
  clientX :: real
  clientY :: real
  shiftKey :: bool
  detail :: nat
  canvasRect :: "Point option"
  dateNow :: string

definition getMousePos :: "MouseEvent \<Rightarrow> State \<Rightarrow> Point" where
  "getMousePos e s =
     (case canvasRect e of
        None \<Rightarrow> \<lparr> px = 0, py = 0 \<rparr>
      | Some rect \<Rightarrow>
          \<lparr> px = (clientX e - px rect - px (panOffset s)) / scale s,
            py = (clientY e - py rect - py (panOffset s)) / scale s \<rparr>)"

text \<open>An interaction state object with only \<open>mode\<close> and \<open>startMousePos\<close>.\<close>

definition interaction :: "Mode \<Rightarrow> Point \<Rightarrow> InteractionState" where
  "interaction m pos =
     \<lparr> mode = m, resizeHandle = None, startMousePos = pos,
       startElementSnapshot = None, startElementSnapshots = None \<rparr>"

text \<open>
  The loop \<open>for (let i = elements.length - 1; i >= 0; i--)\<close> of both handlers: the
  identifier of the topmost element under the point, \<open>None\<close> for \<open>null\<close>.
\<close>

definition topmostAt :: "State \<Rightarrow> real \<Rightarrow> real \<Rightarrow> string option" where
  "topmostAt s x y = map_option e_id (find (isPointInElement s x y) (rev (elements s)))"

text \<open>
  The resize handle of the sole selected element under the point, with that element:
  the test opening the selection branch of \<open>handleMouseDown\<close> and of \<open>handleMouseMove\<close>.
\<close>

definition selectedHandleAt ::
  "State \<Rightarrow> real \<Rightarrow> real \<Rightarrow> (ResizeHandle \<times> DrawingElement) option" where
  "selectedHandleAt s x y =
     (if length (selectedElementIds s) = 1 then
        (case find (\<lambda>el. e_id el = hd (selectedElementIds s)) (elements s) of
           None \<Rightarrow> None
         | Some selectedEl \<Rightarrow>
             map_option (\<lambda>h. (h, selectedEl)) (getResizeHandleAtPosition s x y selectedEl))
      else None)"

text \<open>
  The block that recomputes origin and size from the points, as it stands in the path
  finalisation of \<open>handleMouseDown\<close> and in the pencil finalisation of
  \<open>handleMouseUp\<close>, both under \<open>if (points)\<close>: an empty array is truthy.
\<close>

definition fromPoints :: "DrawingElement \<Rightarrow> Outside + DrawingElement" where
  "fromPoints el =
     (case e_points el of
        None \<Rightarrow> Inr el
      | Some [] \<Rightarrow> Inl Infinite_bounds
      | Some (p # ps) \<Rightarrow>
          (let xs = map px ps; ys = map py ps;
               x' = Math_min (px p) xs; y' = Math_min (py p) ys
           in Inr (el\<lparr> e_x := x', e_y := y',
                       e_width := Some (Math_max (px p) xs - x'),
                       e_height := Some (Math_max (py p) ys - y') \<rparr>)))"

definition baseElement :: "State \<Rightarrow> string \<Rightarrow> Tool \<Rightarrow> real \<Rightarrow> real \<Rightarrow> DrawingElement" where
  "baseElement s ident t x y =
     \<lparr> e_id = ident, e_type = t, e_x = x, e_y = y, e_width = Some 0, e_height = Some 0,
       e_points = None, e_text = None,
       e_strokeColor = (if isDarkMode s then ''#e0e0e0'' else strokeColor s),
       e_backgroundColor = ''transparent'', e_strokeWidth = strokeWidth s,
       e_strokeStyle = Some (strokeStyle s), e_opacity = Some (opacity s),
       e_startArrowhead = startArrowhead s, e_endArrowhead = endArrowhead s,
       e_imageData = None, e_fontSize = None, e_fontFamily = None, e_fontWeight = None,
       e_fontStyle = None, e_textAlign = None, e_customData = None \<rparr>"

subsection \<open>handleMouseDown\<close>

text \<open>
  The selection-tool branch: a resize handle of the sole selected element, else the
  topmost element under the pointer, else the start of a box selection. An empty
  identifier is falsy in \<open>if (clickedId)\<close>.
\<close>

definition selectionMouseDown :: "MouseEvent \<Rightarrow> Point \<Rightarrow> State \<Rightarrow> State" where
  "selectionMouseDown e pos s =
     (case selectedHandleAt s (px pos) (py pos) of
        Some (handle, selectedEl) \<Rightarrow>
          s\<lparr> interactionState :=
               \<lparr> mode = Resizing, resizeHandle = Some handle, startMousePos = pos,
                 startElementSnapshot = Some selectedEl, startElementSnapshots = None \<rparr> \<rparr>
      | None \<Rightarrow>
          (case topmostAt s (px pos) (py pos) of
             Some clickedId \<Rightarrow>
               if clickedId \<noteq> [] then
                 (let isShift = shiftKey e;
                      isAlreadySelected = (clickedId \<in> set (selectedElementIds s));
                      newSelection =
                        (if isShift then
                           (if isAlreadySelected
                            then filter (\<lambda>i. i \<noteq> clickedId) (selectedElementIds s)
                            else selectedElementIds s @ [clickedId])
                         else if \<not> isAlreadySelected then [clickedId]
                         else selectedElementIds s);
                      snapshots =
                        fold (\<lambda>el m. if e_id el \<in> set newSelection then m(e_id el \<mapsto> el) else m)
                          (elements s) Map.empty
                  in if isShift \<and> isAlreadySelected then s\<lparr> selectedElementIds := newSelection \<rparr>
                     else s\<lparr> selectedElementIds := newSelection,
                             interactionState :=
                               \<lparr> mode = Moving, resizeHandle = None, startMousePos = pos,
                                 startElementSnapshot = None,
                                 startElementSnapshots = Some snapshots \<rparr> \<rparr>)
               else
                 (if \<not> shiftKey e then s\<lparr> selectedElementIds := [] \<rparr> else s)
                   \<lparr> selectionBox := Some \<lparr> sb_start = pos, sb_current = pos \<rparr>,
                     interactionState := interaction Selection_box pos \<rparr>
           | None \<Rightarrow>
               (if \<not> shiftKey e then s\<lparr> selectedElementIds := [] \<rparr> else s)
                 \<lparr> selectionBox := Some \<lparr> sb_start = pos, sb_current = pos \<rparr>,
                   interactionState := interaction Selection_box pos \<rparr>))"

text \<open>The path-tool branch: finalise on a double click, start a path, or add a point.\<close>

definition pathMouseDown :: "MouseEvent \<Rightarrow> Point \<Rightarrow> State \<Rightarrow> Outside + State" where
  "pathMouseDown e pos s =
     (case currentElement s of
        None \<Rightarrow>
          Inr (s\<lparr> interactionState := interaction Drawing pos,
                  currentElement :=
                    Some ((baseElement s (dateNow e) Path (px pos) (py pos))
                            \<lparr> e_width := None, e_height := None,
                              e_points := Some [pos, pos] \<rparr>) \<rparr>)
      | Some cur \<Rightarrow>
          if detail e = 2 \<and> e_type cur = Path then
            (case fromPoints cur of
               Inl out \<Rightarrow> Inl out
             | Inr finalPath \<Rightarrow>
                 (let newElements = elements s @ [finalPath];
                      s' = (pushToHistory newElements (s\<lparr> elements := newElements \<rparr>))
                             \<lparr> currentElement := None,
                               selectedElementIds := [e_id finalPath],
                               interactionState := interaction Mode_none pos \<rparr>
                  in Inr (if \<not> lockTool s then s'\<lparr> tool := Selection \<rparr> else s')))
          else
            (case e_points cur of
               None \<Rightarrow> Inr s
             | Some pts \<Rightarrow>
                 Inr (s\<lparr> currentElement :=
                           Some (cur\<lparr> e_points :=
                                   Some (pts[length pts - 1 := pos] @ [pos]) \<rparr>) \<rparr>)))"

text \<open>
  The text tool only schedules a prompt (\<open>requestAnimationFrame\<close>); the handler itself
  changes nothing. The laser buffer is not part of the state.
\<close>

definition handleMouseDown :: "MouseEvent \<Rightarrow> State \<Rightarrow> Outside + State" where
  "handleMouseDown e s =
     (if scale s = 0 then Inl Zero_scale
      else
        let pos = getMousePos e s; x = px pos; y = py pos
        in if effectiveTool s = Laser then Inr (s\<lparr> interactionState := interaction Drawing pos \<rparr>)
           else if effectiveTool s = Hand then
             Inr (s\<lparr> interactionState :=
                       interaction Panning \<lparr> px = clientX e, py = clientY e \<rparr> \<rparr>)
           else if effectiveTool s = Selection then Inr (selectionMouseDown e pos s)
           else if effectiveTool s = Text then Inr s
           else if effectiveTool s = Path then pathMouseDown e pos s
           else
             (let base = baseElement s (dateNow e) (effectiveTool s) x y
              in Inr (s\<lparr> interactionState := interaction Drawing pos,
                         currentElement :=
                           Some (if effectiveTool s = Pencil then
                                   base\<lparr> e_points := Some [\<lparr> px = x, py = y \<rparr>] \<rparr>
                                 else if effectiveTool s = Long_position
                                       \<or> effectiveTool s = Short_position then
                                   base\<lparr> e_width := Some 100, e_height := Some 100,
                                         e_customData := Some \<lparr> entryRatio = Some 0.5 \<rparr> \<rparr>
                                 else base) \<rparr>)))"

subsection \<open>handleMouseMove\<close>

text \<open>The callback of \<open>prev.map\<close> in the moving branch, for an element with a snapshot.\<close>

definition moveSnapshot :: "real \<Rightarrow> real \<Rightarrow> DrawingElement \<Rightarrow> DrawingElement" where
  "moveSnapshot dx dy snapshot =
     (let newEl = snapshot\<lparr> e_x := e_x snapshot + dx, e_y := e_y snapshot + dy \<rparr>
      in if e_type newEl = Pencil \<or> e_type newEl = Path then
           (case e_points snapshot of
              None \<Rightarrow> newEl
            | Some pts \<Rightarrow>
                newEl\<lparr> e_points := Some (map (\<lambda>p. \<lparr> px = px p + dx, py = py p + dy \<rparr>) pts) \<rparr>)
         else newEl)"

text \<open>
  \<open>Math.min(Math.max(relY / Math.abs(nh), 0.05), 0.95)\<close>. With \<open>nh = 0\<close> the quotient is
  \<open>Infinity\<close>, \<open>-Infinity\<close> or (for \<open>relY = 0\<close>) NaN, and NaN passes through
  \<open>Math.max\<close> and \<open>Math.min\<close>.
\<close>

definition entryRatioAt :: "real \<Rightarrow> real \<Rightarrow> Outside + real" where
  "entryRatioAt relY nh =
     (if \<bar>nh\<bar> = 0 then
        (if relY = 0 then Inl Not_a_number
         else if relY > 0 then Inr 0.95
         else Inr 0.05)
      else Inr (min (max (relY / \<bar>nh\<bar>) 0.05) 0.95))"

text \<open>\<open>{ ...el.customData }\<close>: an object also when \<open>customData\<close> is absent.\<close>

definition spreadCustomData :: "CustomData option \<Rightarrow> CustomData" where
  "spreadCustomData c = (case c of None \<Rightarrow> \<lparr> entryRatio = None \<rparr> | Some d \<Rightarrow> d)"

text \<open>
  The callback of \<open>prev.map\<close> in the resizing branch, for the element \<open>el\<close> whose
  identifier is the selected one; \<open>y\<close> is the pointer's world ordinate.
\<close>

definition resizeElement ::
  "ResizeHandle \<Rightarrow> DrawingElement \<Rightarrow> real \<Rightarrow> real \<Rightarrow> real \<Rightarrow> DrawingElement
     \<Rightarrow> Outside + DrawingElement" where
  "resizeElement handle snapshot dx dy y el =
     (let nx = e_x snapshot; ny = e_y snapshot;
          nw = orZero (e_width snapshot); nh = orZero (e_height snapshot);
          newCustomData = spreadCustomData (e_customData el)
      in if handle = Entry then
           (case entryRatioAt (y - ny) nh of
              Inl out \<Rightarrow> Inl out
            | Inr ratio \<Rightarrow>
                Inr (el\<lparr> e_customData := Some (newCustomData\<lparr> entryRatio := Some ratio \<rparr>) \<rparr>))
         else if handle = N then
           Inr (el\<lparr> e_x := nx, e_y := ny + dy, e_width := Some nw, e_height := Some (nh - dy),
                   e_customData := Some newCustomData \<rparr>)
         else if handle = S then
           Inr (el\<lparr> e_x := nx, e_y := ny, e_width := Some nw, e_height := Some (nh + dy),
                   e_customData := Some newCustomData \<rparr>)
         else
           (let nw1 = (if handle_includes handle CHR ''e'' then nw + dx else nw);
                nh1 = (if handle_includes handle CHR ''s'' then nh + dy else nh);
                nx2 = (if handle_includes handle CHR ''w'' then nx + dx else nx);
                nw2 = (if handle_includes handle CHR ''w'' then nw1 - dx else nw1);
                ny3 = (if handle_includes handle CHR ''n'' then ny + dy else ny);
                nh3 = (if handle_includes handle CHR ''n'' then nh1 - dy else nh1)
            in Inr (el\<lparr> e_x := nx2, e_y := ny3, e_width := Some nw2, e_height := Some nh3,
                       e_customData := Some newCustomData \<rparr>)))"

text \<open>\<open>prev.map(f)\<close> for a callback that may leave the model: the first exit wins.\<close>

fun mapOutside :: "('a \<Rightarrow> Outside + 'b) \<Rightarrow> 'a list \<Rightarrow> Outside + 'b list" where
  "mapOutside f [] = Inr []"
| "mapOutside f (v # vs) =
     (case f v of
        Inl out \<Rightarrow> Inl out
      | Inr w \<Rightarrow> (case mapOutside f vs of Inl out \<Rightarrow> Inl out | Inr ws \<Rightarrow> Inr (w # ws)))"

text \<open>The predicate of \<open>prev.filter\<close> in the eraser branch: the elements that stay.\<close>

definition eraserKeeps :: "State \<Rightarrow> real \<Rightarrow> real \<Rightarrow> DrawingElement \<Rightarrow> bool" where
  "eraserKeeps s x y el =
     (let dist = sqrt ((e_x el - x)\<^sup>2 + (e_y el - y)\<^sup>2)
      in dist > eraserSize s / scale s)"

text \<open>The last block of \<open>handleMouseMove\<close>, \<open>if (interactionState.mode === 'drawing')\<close>.\<close>

definition drawingMouseMove :: "Point \<Rightarrow> State \<Rightarrow> State \<Rightarrow> State" where
  "drawingMouseMove pos s s1 =
     (case currentElement s of
        None \<Rightarrow> s1
      | Some cur \<Rightarrow>
          if effectiveTool s = Path then
            (case e_points cur of
               None \<Rightarrow> s1
             | Some pts \<Rightarrow>
                 s1\<lparr> currentElement :=
                       Some (cur\<lparr> e_points := Some (pts[length pts - 1 := pos]) \<rparr>) \<rparr>)
          else if effectiveTool s = Pencil then
            s1\<lparr> currentElement :=
                  Some (cur\<lparr> e_points :=
                               Some ((case e_points cur of None \<Rightarrow> [] | Some pts \<Rightarrow> pts) @ [pos]),
                             e_width := Some (max (orZero (e_width cur)) (px pos - e_x cur)),
                             e_height := Some (max (orZero (e_height cur)) (py pos - e_y cur)) \<rparr>) \<rparr>
          else if effectiveTool s \<in> set [Rectangle, Diamond, Ellipse, Arrow, Line, Image,
                                        Long_position, Short_position] then
            s1\<lparr> currentElement :=
                  Some (cur\<lparr> e_width := Some (px pos - e_x cur),
                             e_height := Some (py pos - e_y cur) \<rparr>) \<rparr>
          else if effectiveTool s = Eraser then
            s1\<lparr> elements := filter (eraserKeeps s (px pos) (py pos)) (elements s1) \<rparr>
          else s1)"

text \<open>
  \<open>handleMouseMove\<close>. The cursor style is not part of the state. \<open>s1\<close> is the state after
  the hover update that opens the handler; the mode-specific updates follow on it.
\<close>

definition handleMouseMove :: "MouseEvent \<Rightarrow> State \<Rightarrow> Outside + State" where
  "handleMouseMove e s =
     (if scale s = 0 then Inl Zero_scale
      else
        let pos = getMousePos e s; x = px pos; y = py pos;
            ist = interactionState s
        in if effectiveTool s = Laser \<and> mode ist = Drawing then Inr s
           else if effectiveTool s = Selection \<and> mode ist = Mode_none then
             (case selectedHandleAt s x y of
                Some hit \<Rightarrow> Inr (s\<lparr> hoveredElementId := None \<rparr>)
              | None \<Rightarrow> Inr (s\<lparr> hoveredElementId := topmostAt s x y \<rparr>))
           else
             let s1 = s\<lparr> hoveredElementId := None \<rparr>
             in if mode ist = Panning then
                  (let dx = clientX e - px (startMousePos ist);
                       dy = clientY e - py (startMousePos ist)
                   in Inr (s1\<lparr> panOffset := \<lparr> px = px (panOffset s1) + dx,
                                               py = py (panOffset s1) + dy \<rparr>,
                               interactionState :=
                                 ist\<lparr> startMousePos := \<lparr> px = clientX e, py = clientY e \<rparr> \<rparr> \<rparr>))
                else if mode ist = Selection_box then
                  Inr (s1\<lparr> selectionBox :=
                            map_option (\<lambda>b. b\<lparr> sb_current := pos \<rparr>) (selectionBox s1) \<rparr>)
                else if mode ist = Moving \<and> startElementSnapshots ist \<noteq> None then
                  (let dx = x - px (startMousePos ist);
                       dy = y - py (startMousePos ist);
                       snapshots = (case startElementSnapshots ist of
                                      None \<Rightarrow> Map.empty | Some m \<Rightarrow> m)
                   in Inr (s1\<lparr> elements :=
                                 map (\<lambda>el. case snapshots (e_id el) of
                                             None \<Rightarrow> el
                                           | Some snapshot \<Rightarrow> moveSnapshot dx dy snapshot)
                                   (elements s1) \<rparr>))
                else if mode ist = Resizing \<and> length (selectedElementIds s) = 1
                        \<and> startElementSnapshot ist \<noteq> None \<and> resizeHandle ist \<noteq> None then
                  (case (startElementSnapshot ist, resizeHandle ist) of
                     (Some snapshot, Some handle) \<Rightarrow>
                       (let dx = x - px (startMousePos ist);
                            dy = y - py (startMousePos ist);
                            selectedId = hd (selectedElementIds s)
                        in case mapOutside
                                  (\<lambda>el. if e_id el = selectedId
                                        then resizeElement handle snapshot dx dy y el
                                        else Inr el)
                                  (elements s1) of
                             Inl out \<Rightarrow> Inl out
                           | Inr els \<Rightarrow> Inr (s1\<lparr> elements := els \<rparr>))
                   | _ \<Rightarrow> Inr s1)
                else if mode ist = Drawing then Inr (drawingMouseMove pos s s1)
                else Inr s1)"

subsection \<open>handleMouseUp\<close>

text \<open>\<open>Array.from(new Set(xs))\<close>: the first occurrence of each value, in order.\<close>

definition arrayFromSet :: "'a list \<Rightarrow> 'a list" where
  "arrayFromSet xs = fold (\<lambda>v acc. if v \<in> set acc then acc else acc @ [v]) xs []"

text \<open>The predicate of \<open>elements.filter\<close> in the box-selection branch.\<close>

definition inSelectionBox :: "SelectionBox \<Rightarrow> DrawingElement \<Rightarrow> bool" where
  "inSelectionBox box el =
     (let x1 = min (px (sb_start box)) (px (sb_current box));
          x2 = max (px (sb_start box)) (px (sb_current box));
          y1 = min (py (sb_start box)) (py (sb_current box));
          y2 = max (py (sb_start box)) (py (sb_current box));
          b = getElementBounds el
      in minX b \<ge> x1 \<and> maxX b \<le> x2 \<and> minY b \<ge> y1 \<and> maxY b \<le> y2)"

text \<open>
  \<open>handleMouseUp\<close>. The tests \<open>elements !== history[historyIndex]\<close> compare array
  identities, which the values of the state do not determine: \<open>sameArray\<close> says whether
  \<open>elements\<close> is the very array stored at \<open>history[historyIndex]\<close>. Every read is of the
  state \<open>s\<close> that the handler closed over; the updates accumulate from \<open>s1\<close> to \<open>s7\<close> in
  the order of the source.
\<close>

definition handleMouseUp :: "MouseEvent \<Rightarrow> bool \<Rightarrow> State \<Rightarrow> Outside + State" where
  "handleMouseUp e sameArray s =
     (if effectiveTool s = Path then Inr s
      else if effectiveTool s = Laser then
        Inr (s\<lparr> interactionState := interaction Mode_none \<lparr> px = 0, py = 0 \<rparr> \<rparr>)
      else
        let m = mode (interactionState s);
            s1 = (case selectionBox s of
                    Some box \<Rightarrow>
                      if m = Selection_box then
                        (let idsInBox = map e_id (filter (inSelectionBox box) (elements s))
                         in s\<lparr> selectedElementIds :=
                                 (if shiftKey e
                                  then arrayFromSet (selectedElementIds s @ idsInBox)
                                  else idsInBox),
                               selectionBox := None \<rparr>)
                      else s
                  | None \<Rightarrow> s);
            drawn = (case currentElement s of
                       Some cur \<Rightarrow>
                         if m = Drawing \<and> effectiveTool s \<noteq> Eraser then
                           (case (if e_type cur = Pencil then fromPoints cur else Inr cur) of
                              Inl out \<Rightarrow> Inl out
                            | Inr el \<Rightarrow>
                                (let finalElement = normalizeElement el;
                                     newElements = elements s @ [finalElement]
                                 in Inr (pushToHistory newElements
                                           (s1\<lparr> elements := newElements,
                                                selectedElementIds := [e_id finalElement] \<rparr>))))
                         else Inr s1
                     | None \<Rightarrow> Inr s1)
        in case drawn of
             Inl out \<Rightarrow> Inl out
           | Inr s2 \<Rightarrow>
               (let s3 = (if effectiveTool s = Eraser \<and> m = Drawing \<and> \<not> sameArray
                          then pushToHistory (elements s) s2 else s2);
                    s4 = (if m = Resizing \<and> length (selectedElementIds s) = 1 then
                            (let ident = hd (selectedElementIds s);
                                 newElements =
                                   map (\<lambda>el. if e_id el = ident then normalizeElement el else el)
                                     (elements s)
                             in pushToHistory newElements (s3\<lparr> elements := newElements \<rparr>))
                          else s3);
                    s5 = (if m = Moving \<and> \<not> sameArray
                          then pushToHistory (elements s) s4 else s4);
                    s6 = s5\<lparr> interactionState := interaction Mode_none \<lparr> px = 0, py = 0 \<rparr>,
                            currentElement := None \<rparr>;
                    s7 = (if \<not> lockTool s \<and> m = Drawing
                             \<and> effectiveTool s \<noteq> Pencil \<and> effectiveTool s \<noteq> Eraser
                          then s6\<lparr> tool := Selection \<rparr> else s6)
                in Inr s7))"

section \<open>Double-precision arithmetic\<close>

text \<open>
  A JavaScript number is an IEEE 754 binary64 value. \<open>toBinary64 v\<close> is the double nearest
  to the real \<open>v\<close>, ties going to the even significand: \<open>v\<close> is divided by the spacing of
  the doubles of its binade (\<open>2\<close> to the power \<open>e - 52\<close> for \<open>2^e \<le> |v| < 2^(e+1)\<close>) and the
  quotient is rounded to an integer. The exponent is not bounded in this model: it has
  no overflow to \<open>Infinity\<close> and no subnormal numbers, and agrees with binary64 for
  magnitudes between \<open>2^-1022\<close> and \<open>2^1024\<close>. \<open>add64\<close> is the \<open>+\<close> of JavaScript on such
  numbers: the exact sum, rounded once.
\<close>

definition roundEven :: "real \<Rightarrow> int" where
  "roundEven v =
     (let f = \<lfloor>v\<rfloor>
      in if v - of_int f < 1 / 2 then f
         else if v - of_int f > 1 / 2 then f + 1
         else if even f then f else f + 1)"

definition pow2 :: "int \<Rightarrow> real" where
  "pow2 e = (if 0 \<le> e then 2 ^ nat e else 1 / 2 ^ nat (- e))"

definition toBinary64 :: "real \<Rightarrow> real" where
  "toBinary64 v =
     (if v = 0 then 0
      else let e = \<lfloor>log 2 \<bar>v\<bar>\<rfloor>; ulp = pow2 (e - 52)
           in sgn v * (ulp * of_int (roundEven (\<bar>v\<bar> / ulp))))"

definition add64 :: "real \<Rightarrow> real \<Rightarrow> real" where
  "add64 a b = toBinary64 (a + b)"


text \<open>
  \<open>getElementBounds\<close>, \<open>normalizeElement\<close> and the translation of the moving branch
  (\<open>moveSnapshot\<close>) once more, line by line as above, with their additions as the
  parameter \<open>add\<close>: with \<open>(+)\<close> they are the functions above (lemmas
  \<open>getElementBounds_exact\<close>, \<open>normalizeElement_exact\<close>, \<open>moveSnapshot_exact\<close>), with
  \<open>add64\<close> they compute what the JavaScript computes. \<open>Math.min\<close>, \<open>Math.max\<close>,
  \<open>Math.abs\<close> and the comparisons are exact on doubles.
\<close>

definition getElementBoundsWith ::
  "(real \<Rightarrow> real \<Rightarrow> real) \<Rightarrow> DrawingElement \<Rightarrow> Bounds" where
  "getElementBoundsWith add element =
     (if e_type element = Path \<or> e_type element = Pencil then
        (case e_points element of
           None \<Rightarrow> \<lparr> minX = e_x element, maxX = e_x element,
                     minY = e_y element, maxY = e_y element \<rparr>
         | Some [] \<Rightarrow> \<lparr> minX = e_x element, maxX = e_x element,
                        minY = e_y element, maxY = e_y element \<rparr>
         | Some (p # ps) \<Rightarrow>
             \<lparr> minX = Math_min (px p) (map px ps), maxX = Math_max (px p) (map px ps),
               minY = Math_min (py p) (map py ps), maxY = Math_max (py p) (map py ps) \<rparr>)
      else
        (let x = e_x element; y = e_y element;
             width = orZero (e_width element); height = orZero (e_height element)
         in \<lparr> minX = min x (add x width), maxX = max x (add x width),
              minY = min y (add y height), maxY = max y (add y height) \<rparr>))"

definition normalizeElementWith ::
  "(real \<Rightarrow> real \<Rightarrow> real) \<Rightarrow> DrawingElement \<Rightarrow> DrawingElement" where
  "normalizeElementWith add element =
     (if e_type element \<in> set resizableTypes then
        (let x = e_x element; y = e_y element;
             width = orZero (e_width element); height = orZero (e_height element)
         in if width < 0 \<or> height < 0 then
              element\<lparr> e_x := (if width < 0 then add x width else x),
                       e_y := (if height < 0 then add y height else y),
                       e_width := Some \<bar>width\<bar>,
                       e_height := Some \<bar>height\<bar> \<rparr>
            else element)
      else element)"

definition moveSnapshotWith ::
  "(real \<Rightarrow> real \<Rightarrow> real) \<Rightarrow> real \<Rightarrow> real \<Rightarrow> DrawingElement \<Rightarrow> DrawingElement" where
  "moveSnapshotWith add dx dy snapshot =
     (let newEl = snapshot\<lparr> e_x := add (e_x snapshot) dx, e_y := add (e_y snapshot) dy \<rparr>
      in if e_type newEl = Pencil \<or> e_type newEl = Path then
           (case e_points snapshot of
              None \<Rightarrow> newEl
            | Some pts \<Rightarrow>
                newEl\<lparr> e_points :=
                  Some (map (\<lambda>p. \<lparr> px = add (px p) dx, py = add (py p) dy \<rparr>) pts) \<rparr>)
         else newEl)"

section \<open>Example elements\<close>

text \<open>
  An element as the drawing tools create it in the initial (light) state, with the given
  size: the concrete input of the examples below.
\<close>

definition exampleElement ::
  "string \<Rightarrow> Tool \<Rightarrow> real \<Rightarrow> real \<Rightarrow> real \<Rightarrow> real \<Rightarrow> DrawingElement" where
  "exampleElement ident t x y w h =
     (baseElement (initialState False) ident t x y)\<lparr> e_width := Some w, e_height := Some h \<rparr>"

definition exampleScene1 :: "DrawingElement list" where
  "exampleScene1 = [exampleElement ''a'' Rectangle 10 10 100 50]"

definition exampleScene2 :: "DrawingElement list" where
  "exampleScene2 = [exampleElement ''a'' Rectangle 10 10 100 50, exampleElement ''b'' Ellipse 0 0 5 5]"

text \<open>
  A pointer event at client position \<open>(x, y)\<close> on a canvas whose bounding rectangle
  starts at the origin, without shift, and a scene with one selected rectangle, before
  and after a pointer-down on its bottom-right corner.
\<close>

definition exampleEvent :: "real \<Rightarrow> real \<Rightarrow> MouseEvent" where
  "exampleEvent x y =
     \<lparr> clientX = x, clientY = y, shiftKey = False, detail = 1,
       canvasRect = Some \<lparr> px = 0, py = 0 \<rparr>, dateNow = ''1700000000000'' \<rparr>"

definition selectedScene :: State where
  "selectedScene =
     (initialState False)\<lparr> elements := [exampleElement ''a'' Rectangle 0 0 100 50],
                            selectedElementIds := [''a''] \<rparr>"

definition draggingBR :: State where
  "draggingBR =
     selectedScene\<lparr> interactionState :=
       \<lparr> mode = Resizing, resizeHandle = Some BR, startMousePos = \<lparr> px = 100, py = 50 \<rparr>,
         startElementSnapshot = Some (exampleElement ''a'' Rectangle 0 0 100 50),
         startElementSnapshots = None \<rparr> \<rparr>"

text \<open>
  A scene in the middle of an eraser drag (eraser size 30, scale 1), with elements whose
  origins are at distance 30, 31 and 5 from the point \<open>(100, 100)\<close>.
\<close>

definition erasingScene :: State where
  "erasingScene =
     (initialState False)\<lparr> tool := Eraser,
        elements := [exampleElement ''edge'' Rectangle 130 100 10 10,
                     exampleElement ''far'' Rectangle 131 100 10 10,
                     exampleElement ''near'' Rectangle 103 104 10 10],
        currentElement := Some (baseElement (initialState False) ''1700000000000'' Eraser 0 0),
        interactionState := interaction Drawing \<lparr> px = 0, py = 0 \<rparr> \<rparr>"

text \<open>The initial state with the tool \<open>t\<close> chosen.\<close>

definition toolState :: "Tool \<Rightarrow> State" where
  "toolState t = (initialState False)\<lparr> tool := t \<rparr>"

text \<open>
  A scene in the middle of a box selection from \<open>(0, 0)\<close> to \<open>(50, 50)\<close>: element \<open>a\<close>
  lies inside the box, \<open>b\<close> overlaps it in part, \<open>c\<close> is outside and selected.
\<close>

definition boxScene :: State where
  "boxScene =
     (initialState False)\<lparr>
        elements := [exampleElement ''a'' Rectangle 10 10 20 20,
                     exampleElement ''b'' Rectangle 40 40 100 100,
                     exampleElement ''c'' Ellipse 200 200 10 10],
        selectedElementIds := [''c''],
        selectionBox := Some \<lparr> sb_start = \<lparr> px = 0, py = 0 \<rparr>,
                                sb_current = \<lparr> px = 50, py = 50 \<rparr> \<rparr>,
        interactionState := interaction Selection_box \<lparr> px = 0, py = 0 \<rparr> \<rparr>"

text \<open>
  The centres of the resize handles of an element, in the order in which
  \<open>getResizeHandleAtPosition\<close> tests them: the four corners of the bounds and, for the
  position markers, the midpoints of the top and the bottom edge and the point of the
  right edge at the entry ratio. This list restates the geometry of the hit test; the
  theorem for claim C8 compares the function with it.
\<close>

definition handleCenters :: "DrawingElement \<Rightarrow> (ResizeHandle \<times> Point) list" where
  "handleCenters element =
     (let ex = e_x element; ey = e_y element;
          w = orZero (e_width element); h = orZero (e_height element);
          x1 = min ex (ex + w); x2 = max ex (ex + w);
          y1 = min ey (ey + h); y2 = max ey (ey + h)
      in [(TL, \<lparr> px = x1, py = y1 \<rparr>), (TR, \<lparr> px = x2, py = y1 \<rparr>),
          (BL, \<lparr> px = x1, py = y2 \<rparr>), (BR, \<lparr> px = x2, py = y2 \<rparr>)]
         @ (if e_type element = Long_position \<or> e_type element = Short_position then
              [(N, \<lparr> px = x1 + (x2 - x1) / 2, py = y1 \<rparr>),
               (S, \<lparr> px = x1 + (x2 - x1) / 2, py = y2 \<rparr>),
               (Entry, \<lparr> px = x2,
                         py = y1 + \<bar>h\<bar> * (case e_customData element of
                                              None \<Rightarrow> 0.5
                                            | Some c \<Rightarrow> (case entryRatio c of
                                                          None \<Rightarrow> 0.5 | Some r \<Rightarrow> r)) \<rparr>)]
            else []))"

text \<open>
  Readings of the clock and of the random generator for a paste (\<open>exampleRandom\<close> gives
  two different strings, \<open>sameRandom\<close> the same string twice), and a scene at scale 2
  whose clipboard holds a rectangle and a pencil stroke.
\<close>

definition exampleClock :: "nat \<Rightarrow> string" where
  "exampleClock i = ''1700000000000''"

definition exampleRandom :: "nat \<Rightarrow> string" where
  "exampleRandom i = (if i = 0 then ''0.k3j9x2a'' else ''0.zz17qpl'')"

definition sameRandom :: "nat \<Rightarrow> string" where
  "sameRandom i = ''0.k3j9x2a''"

definition pasteScene :: State where
  "pasteScene =
     (initialState False)\<lparr>
        scale := 2,
        elements := [exampleElement ''a'' Rectangle 0 0 100 50],
        clipboard := [exampleElement ''a'' Rectangle 0 0 100 50,
                      (exampleElement ''p'' Pencil 1 2 0 0)
                        \<lparr> e_points := Some [\<lparr> px = 1, py = 2 \<rparr>, \<lparr> px = 3, py = 4 \<rparr>] \<rparr>],
        selectedElementIds := [''a''] \<rparr>"

section \<open>Bounds\<close>

text \<open>
  Claim C10. For a pencil or path element whose point sequence is absent or empty,
  \<open>getElementBounds\<close> returns the degenerate bounds at the element's origin: all four
  values are coordinates of the origin (so they are finite numbers).
\<close>

theorem getElementBounds_no_points:
  assumes "e_type e = Path \<or> e_type e = Pencil"
      and "e_points e = None \<or> e_points e = Some []"
  shows "getElementBounds e =
           \<lparr> minX = e_x e, maxX = e_x e, minY = e_y e, maxY = e_y e \<rparr>"
  using assms by (auto simp: getElementBounds_def)

theorem getElementBounds_no_points_witness:
  "(e_type ((exampleElement ''p'' Pencil 3 4 0 0)\<lparr> e_points := Some [] \<rparr>) = Path
      \<or> e_type ((exampleElement ''p'' Pencil 3 4 0 0)\<lparr> e_points := Some [] \<rparr>) = Pencil)
   \<and> (e_points ((exampleElement ''p'' Pencil 3 4 0 0)\<lparr> e_points := Some [] \<rparr>) = None
      \<or> e_points ((exampleElement ''p'' Pencil 3 4 0 0)\<lparr> e_points := Some [] \<rparr>) = Some [])
   \<and> getElementBounds ((exampleElement ''p'' Pencil 3 4 0 0)\<lparr> e_points := Some [] \<rparr>) =
       \<lparr> minX = 3, maxX = 3, minY = 4, maxY = 4 \<rparr>"
proof -
  let ?e = "(exampleElement ''p'' Pencil 3 4 0 0)\<lparr> e_points := Some [] \<rparr>"
  have kind: "e_type ?e = Path \<or> e_type ?e = Pencil"
    by (simp add: exampleElement_def baseElement_def)
  have pts: "e_points ?e = None \<or> e_points ?e = Some []"
    by simp
  have "e_x ?e = 3" and "e_y ?e = 4"
    by (simp_all add: exampleElement_def baseElement_def)
  with getElementBounds_no_points [OF kind pts] kind pts show ?thesis
    by simp
qed

section \<open>History\<close>

lemma push_history: "history (pushToHistory scene s) = take (historyIndex s + 1) (history s) @ [scene]"
  by (simp add: pushToHistory_def Let_def)

lemma push_index: "historyIndex (pushToHistory scene s) = length (take (historyIndex s + 1) (history s))"
  by (simp add: pushToHistory_def Let_def)

lemma push_other:
  "elements (pushToHistory scene s) = elements s"
  "selectedElementIds (pushToHistory scene s) = selectedElementIds s"
  by (simp_all add: pushToHistory_def Let_def)

lemma push_top: "historyIndex (pushToHistory scene s) + 1 = length (history (pushToHistory scene s))"
  by (simp add: push_history push_index)

lemma push_at_top:
  assumes "historyIndex s + 1 = length (history s)"
  shows "history (pushToHistory scene s) = history s @ [scene]"
    and "historyIndex (pushToHistory scene s) = length (history s)"
  using assms by (simp_all add: push_history push_index)

lemma push_push:
  "history (pushToHistory S2 (pushToHistory S1 s)) = take (historyIndex s + 1) (history s) @ [S1, S2]"
  "historyIndex (pushToHistory S2 (pushToHistory S1 s)) = length (take (historyIndex s + 1) (history s)) + 1"
proof -
  let ?s1 = "pushToHistory S1 s"
  have top: "historyIndex ?s1 + 1 = length (history ?s1)" by (rule push_top)
  show "history (pushToHistory S2 ?s1) = take (historyIndex s + 1) (history s) @ [S1, S2]"
    using push_at_top(1) [OF top, of S2] by (simp add: push_history)
  show "historyIndex (pushToHistory S2 ?s1) = length (take (historyIndex s + 1) (history s)) + 1"
    using push_at_top(2) [OF top, of S2] by (simp add: push_history)
qed

lemma undo_push_push:
  "undo (pushToHistory S2 (pushToHistory S1 s)) =
     Inr ((pushToHistory S2 (pushToHistory S1 s))
           \<lparr> historyIndex := length (take (historyIndex s + 1) (history s)),
             elements := S1, selectedElementIds := [] \<rparr>)"
  unfolding undo_def push_push by (simp add: nth_append)

lemma redo_undo_push_push:
  assumes "undo (pushToHistory S2 (pushToHistory S1 s)) = Inr s3"
  shows "elements (redo s3) = S2"
    and "history (redo s3) = history (pushToHistory S2 (pushToHistory S1 s))"
    and "historyIndex (redo s3) = historyIndex (pushToHistory S2 (pushToHistory S1 s))"
    and "selectedElementIds s3 = []"
proof -
  define t where "t = take (historyIndex s + 1) (history s)"
  from assms have s3: "s3 = (pushToHistory S2 (pushToHistory S1 s))
           \<lparr> historyIndex := length t, elements := S1, selectedElementIds := [] \<rparr>"
    by (simp add: undo_push_push t_def)
  have h: "history s3 = t @ [S1, S2]" and i: "historyIndex s3 = length t"
    by (simp_all add: s3 push_push t_def)
  have r: "redo s3 = s3\<lparr> historyIndex := length t + 1, elements := S2, selectedElementIds := [] \<rparr>"
    unfolding redo_def h i by (simp add: nth_append)
  show "elements (redo s3) = S2"
    by (simp add: r)
  have "history (redo s3) = history s3"
    by (simp add: r)
  then show "history (redo s3) = history (pushToHistory S2 (pushToHistory S1 s))"
    by (simp add: s3)
  have "historyIndex (redo s3) = length t + 1"
    by (simp add: r)
  then show "historyIndex (redo s3) = historyIndex (pushToHistory S2 (pushToHistory S1 s))"
    by (simp add: push_push(2) t_def)
  show "selectedElementIds s3 = []" by (simp add: s3)
qed

lemma undo_undo_push_push:
  assumes wf: "historyIndex s < length (history s)"
    and u: "undo (pushToHistory S2 (pushToHistory S1 s)) = Inr s3"
  shows "undo s3 = Inr (s3\<lparr> historyIndex := historyIndex s, elements := history s ! historyIndex s, selectedElementIds := [] \<rparr>)"
proof -
  from wf have len: "length (take (historyIndex s + 1) (history s)) = historyIndex s + 1"
    by simp
  from u have s3: "s3 = (pushToHistory S2 (pushToHistory S1 s))
           \<lparr> historyIndex := length (take (historyIndex s + 1) (history s)),
             elements := S1, selectedElementIds := [] \<rparr>"
    by (simp add: undo_push_push)
  have h: "history s3 = take (historyIndex s + 1) (history s) @ [S1, S2]"
    and i: "historyIndex s3 = historyIndex s + 1"
    using len by (simp_all add: s3 push_push)
  have nth: "history s3 ! historyIndex s = history s ! historyIndex s"
    using wf by (simp add: h nth_append)
  have inrange: "historyIndex s < length (history s3)"
    using wf by (simp add: h)
  show ?thesis
    unfolding undo_def using nth inrange by (simp add: i)
qed

lemma undo_bottom: "historyIndex s = 0 \<Longrightarrow> undo s = Inr s"
  by (simp add: undo_def)

lemma redo_top: "historyIndex s + 1 = length (history s) \<Longrightarrow> redo s = s"
  by (simp add: redo_def)

lemma undo_moves: "undo s = Inr s' \<Longrightarrow> historyIndex s' \<noteq> historyIndex s \<Longrightarrow> selectedElementIds s' = []"
  by (auto simp: undo_def split: if_splits)

lemma redo_moves: "historyIndex (redo s) \<noteq> historyIndex s \<Longrightarrow> selectedElementIds (redo s) = []"
  by (auto simp: redo_def split: if_splits)

lemma wf_undo: "historyIndex s < length (history s) \<Longrightarrow> \<exists>s'. undo s = Inr s' \<and> historyIndex s' < length (history s')"
  by (auto simp: undo_def)

lemma wf_redo: "historyIndex s < length (history s) \<Longrightarrow> historyIndex (redo s) < length (history (redo s))"
  by (auto simp: redo_def)


text \<open>
  Claim C5. History round trip, from any state \<open>s\<close>, \<open>commit\<close> being \<open>pushToHistory\<close>:
  \<^item> after \<open>commit(S1); commit(S2); undo(); redo()\<close> the live scene is \<open>S2\<close>;
  \<^item> if the index of \<open>s\<close> points into its history, then after
    \<open>commit(S1); commit(S2); undo(); undo()\<close> the live scene is the snapshot that was
    current before \<open>S1\<close>, and when that snapshot is the bottom of the stack a further
    \<open>undo()\<close> changes nothing;
  \<^item> \<open>undo()\<close> at index 0 and \<open>redo()\<close> at the last index return the state unchanged;
  \<^item> an \<open>undo()\<close> or \<open>redo()\<close> that moves the index leaves the selection empty.
\<close>

theorem history_round_trip:
  "(\<exists>s3. undo (pushToHistory S2 (pushToHistory S1 s)) = Inr s3
        \<and> elements (redo s3) = S2)
   \<and> (historyIndex s < length (history s) \<longrightarrow>
        (\<exists>s3 s4. undo (pushToHistory S2 (pushToHistory S1 s)) = Inr s3 \<and> undo s3 = Inr s4
            \<and> elements s4 = history s ! historyIndex s
            \<and> (historyIndex s = 0 \<longrightarrow> undo s4 = Inr s4)))
   \<and> (historyIndex s = 0 \<longrightarrow> undo s = Inr s)
   \<and> (historyIndex s + 1 = length (history s) \<longrightarrow> redo s = s)
   \<and> (\<forall>s'. undo s = Inr s' \<and> historyIndex s' \<noteq> historyIndex s
          \<longrightarrow> selectedElementIds s' = [])
   \<and> (historyIndex (redo s) \<noteq> historyIndex s \<longrightarrow> selectedElementIds (redo s) = [])"
proof -
  obtain s3 where u: "undo (pushToHistory S2 (pushToHistory S1 s)) = Inr s3"
    by (simp add: undo_push_push)
  have part1: "\<exists>s3. undo (pushToHistory S2 (pushToHistory S1 s)) = Inr s3
                  \<and> elements (redo s3) = S2"
    using u redo_undo_push_push(1) [OF u] by blast
  have part2: "historyIndex s < length (history s) \<longrightarrow>
        (\<exists>s3 s4. undo (pushToHistory S2 (pushToHistory S1 s)) = Inr s3 \<and> undo s3 = Inr s4
            \<and> elements s4 = history s ! historyIndex s
            \<and> (historyIndex s = 0 \<longrightarrow> undo s4 = Inr s4))"
  proof
    assume wf: "historyIndex s < length (history s)"
    let ?s4 = "s3\<lparr> historyIndex := historyIndex s,
                    elements := history s ! historyIndex s, selectedElementIds := [] \<rparr>"
    have uu: "undo s3 = Inr ?s4"
      by (rule undo_undo_push_push [OF wf u])
    show "\<exists>s3 s4. undo (pushToHistory S2 (pushToHistory S1 s)) = Inr s3
            \<and> undo s3 = Inr s4 \<and> elements s4 = history s ! historyIndex s
            \<and> (historyIndex s = 0 \<longrightarrow> undo s4 = Inr s4)"
    proof (intro exI conjI)
      show "undo (pushToHistory S2 (pushToHistory S1 s)) = Inr s3" by (rule u)
      show "undo s3 = Inr ?s4" by (rule uu)
      show "elements ?s4 = history s ! historyIndex s" by simp
      show "historyIndex s = 0 \<longrightarrow> undo ?s4 = Inr ?s4" by (simp add: undo_bottom)
    qed
  qed
  have part3: "historyIndex s = 0 \<longrightarrow> undo s = Inr s"
    by (simp add: undo_bottom)
  have part4: "historyIndex s + 1 = length (history s) \<longrightarrow> redo s = s"
    by (simp add: redo_top)
  have part5: "\<forall>s'. undo s = Inr s' \<and> historyIndex s' \<noteq> historyIndex s
                 \<longrightarrow> selectedElementIds s' = []"
    using undo_moves by blast
  have part6: "historyIndex (redo s) \<noteq> historyIndex s \<longrightarrow> selectedElementIds (redo s) = []"
    using redo_moves by blast
  from part1 part2 part3 part4 part5 part6 show ?thesis
    by blast
qed

theorem history_round_trip_witness:
  "historyIndex (initialState False) < length (history (initialState False))
   \<and> historyIndex (initialState False) = 0
   \<and> historyIndex (initialState False) + 1 = length (history (initialState False))
   \<and> (\<exists>s3. undo (pushToHistory exampleScene2 (pushToHistory exampleScene1 (initialState False))) = Inr s3
         \<and> elements (redo s3) = exampleScene2)
   \<and> (\<exists>s3 s4. undo (pushToHistory exampleScene2 (pushToHistory exampleScene1 (initialState False))) = Inr s3
         \<and> undo s3 = Inr s4 \<and> elements s4 = [] \<and> undo s4 = Inr s4)
   \<and> undo (initialState False) = Inr (initialState False)
   \<and> redo (initialState False) = initialState False
   \<and> (\<exists>s'. undo ((pushToHistory exampleScene1 (initialState False))\<lparr> selectedElementIds := [''a''] \<rparr>) = Inr s'
         \<and> historyIndex s' \<noteq> historyIndex ((pushToHistory exampleScene1 (initialState False))\<lparr> selectedElementIds := [''a''] \<rparr>)
         \<and> selectedElementIds s' = [])
   \<and> historyIndex (redo ((pushToHistory exampleScene1 (initialState False))\<lparr> historyIndex := 0, selectedElementIds := [''a''] \<rparr>))
        \<noteq> historyIndex ((pushToHistory exampleScene1 (initialState False))\<lparr> historyIndex := 0, selectedElementIds := [''a''] \<rparr>)
   \<and> selectedElementIds (redo ((pushToHistory exampleScene1 (initialState False))\<lparr> historyIndex := 0, selectedElementIds := [''a''] \<rparr>)) = []"
proof -
  let ?s0 = "initialState False"
  let ?sa = "(pushToHistory exampleScene1 ?s0)\<lparr> selectedElementIds := [''a''] \<rparr>"
  let ?sb = "(pushToHistory exampleScene1 ?s0)\<lparr> historyIndex := 0, selectedElementIds := [''a''] \<rparr>"
  have wf: "historyIndex ?s0 < length (history ?s0)"
    and bottom: "historyIndex ?s0 = 0"
    and top: "historyIndex ?s0 + 1 = length (history ?s0)"
    and cur: "history ?s0 ! historyIndex ?s0 = []"
    by (simp_all add: initialState_def)
  note t0 = history_round_trip [of exampleScene2 exampleScene1 ?s0]
  from t0 have a: "\<exists>s3. undo (pushToHistory exampleScene2 (pushToHistory exampleScene1 ?s0)) = Inr s3
         \<and> elements (redo s3) = exampleScene2"
    by blast
  from t0 wf bottom cur have b: "\<exists>s3 s4. undo (pushToHistory exampleScene2 (pushToHistory exampleScene1 ?s0)) = Inr s3
         \<and> undo s3 = Inr s4 \<and> elements s4 = [] \<and> undo s4 = Inr s4"
    by metis
  from t0 bottom top have c: "undo ?s0 = Inr ?s0" "redo ?s0 = ?s0"
    by blast+
  have ua: "undo ?sa = Inr (?sa\<lparr> historyIndex := 0, elements := [], selectedElementIds := [] \<rparr>)"
    by (simp add: undo_def pushToHistory_def initialState_def Let_def)
  have "historyIndex (?sa\<lparr> historyIndex := 0, elements := [], selectedElementIds := [] \<rparr>) \<noteq> historyIndex ?sa"
    by (simp add: pushToHistory_def initialState_def Let_def)
  with ua history_round_trip [of exampleScene2 exampleScene1 ?sa]
  have d: "\<exists>s'. undo ?sa = Inr s' \<and> historyIndex s' \<noteq> historyIndex ?sa \<and> selectedElementIds s' = []"
    by blast
  have rb: "historyIndex (redo ?sb) \<noteq> historyIndex ?sb"
    by (simp add: redo_def pushToHistory_def initialState_def Let_def)
  with history_round_trip [of exampleScene2 exampleScene1 ?sb]
  have e: "selectedElementIds (redo ?sb) = []"
    by blast
  from wf bottom top a b c d rb e show ?thesis
    by blast
qed

section \<open>Resizing by a corner handle\<close>

lemma corner_includes:
  "\<not> handle_includes TL CHR ''e''" "\<not> handle_includes TL CHR ''s''"
  "\<not> handle_includes TL CHR ''w''" "\<not> handle_includes TL CHR ''n''"
  "\<not> handle_includes TR CHR ''e''" "\<not> handle_includes TR CHR ''s''"
  "\<not> handle_includes TR CHR ''w''" "\<not> handle_includes TR CHR ''n''"
  "\<not> handle_includes BL CHR ''e''" "\<not> handle_includes BL CHR ''s''"
  "\<not> handle_includes BL CHR ''w''" "\<not> handle_includes BL CHR ''n''"
  "\<not> handle_includes BR CHR ''e''" "\<not> handle_includes BR CHR ''s''"
  "\<not> handle_includes BR CHR ''w''" "\<not> handle_includes BR CHR ''n''"
  by (simp_all add: handle_includes_def)

lemma resizeElement_corner:
  assumes "handle = TL \<or> handle = TR \<or> handle = BL \<or> handle = BR"
  shows "resizeElement handle snapshot dx dy y el =
     Inr (el\<lparr> e_x := e_x snapshot, e_y := e_y snapshot,
             e_width := Some (orZero (e_width snapshot)),
             e_height := Some (orZero (e_height snapshot)),
             e_customData := Some (spreadCustomData (e_customData el)) \<rparr>)"
proof -
  have ne: "handle \<noteq> Entry" "handle \<noteq> N" "handle \<noteq> S"
    using assms by auto
  have inc: "\<not> handle_includes handle CHR ''e''" "\<not> handle_includes handle CHR ''s''"
    "\<not> handle_includes handle CHR ''w''" "\<not> handle_includes handle CHR ''n''"
    using assms corner_includes by blast+
  show ?thesis
    unfolding resizeElement_def Let_def by (simp only: ne inc if_False)
qed

lemma exampleElement_sel:
  "e_id (exampleElement i t x y w h) = i"
  "e_type (exampleElement i t x y w h) = t"
  "e_x (exampleElement i t x y w h) = x"
  "e_y (exampleElement i t x y w h) = y"
  "e_width (exampleElement i t x y w h) = Some w"
  "e_height (exampleElement i t x y w h) = Some h"
  "e_points (exampleElement i t x y w h) = None"
  "e_customData (exampleElement i t x y w h) = None"
  by (simp_all add: exampleElement_def baseElement_def)

lemma selectedScene_sel:
  "scale selectedScene = 1"
  "panOffset selectedScene = \<lparr> px = 0, py = 0 \<rparr>"
  "elements selectedScene = [exampleElement ''a'' Rectangle 0 0 100 50]"
  "selectedElementIds selectedScene = [''a'']"
  "effectiveTool selectedScene = Selection"
  by (simp_all add: selectedScene_def initialState_def effectiveTool_def)

lemma draggingBR_sel:
  "scale draggingBR = 1"
  "panOffset draggingBR = \<lparr> px = 0, py = 0 \<rparr>"
  "elements draggingBR = [exampleElement ''a'' Rectangle 0 0 100 50]"
  "selectedElementIds draggingBR = [''a'']"
  "effectiveTool draggingBR = Selection"
  "interactionState draggingBR =
     \<lparr> mode = Resizing, resizeHandle = Some BR, startMousePos = \<lparr> px = 100, py = 50 \<rparr>,
       startElementSnapshot = Some (exampleElement ''a'' Rectangle 0 0 100 50),
       startElementSnapshots = None \<rparr>"
  by (simp_all add: draggingBR_def selectedScene_sel effectiveTool_def)
     (simp_all add: selectedScene_def initialState_def)

lemma exampleEvent_sel:
  "clientX (exampleEvent a b) = a" "clientY (exampleEvent a b) = b"
  "canvasRect (exampleEvent a b) = Some \<lparr> px = 0, py = 0 \<rparr>"
  "shiftKey (exampleEvent a b) = False"
  by (simp_all add: exampleEvent_def)

lemma selectedScene_pos: "getMousePos (exampleEvent a b) selectedScene = \<lparr> px = a, py = b \<rparr>"
  by (simp add: getMousePos_def exampleEvent_sel selectedScene_sel)

lemma draggingBR_pos: "getMousePos (exampleEvent a b) draggingBR = \<lparr> px = a, py = b \<rparr>"
  by (simp add: getMousePos_def exampleEvent_sel draggingBR_sel)

lemma selectedScene_handle: "getResizeHandleAtPosition selectedScene 100 50 (exampleElement ''a'' Rectangle 0 0 100 50) = Some BR"
  by (simp add: getResizeHandleAtPosition_def exampleElement_sel selectedScene_sel resizableTypes_def orZero_def HANDLE_SIZE_def Let_def)

lemma selectedScene_selectedHandleAt: "selectedHandleAt selectedScene 100 50 = Some (BR, exampleElement ''a'' Rectangle 0 0 100 50)"
  by (simp add: selectedHandleAt_def selectedScene_sel exampleElement_sel selectedScene_handle)

lemma selectedScene_down: "handleMouseDown (exampleEvent 100 50) selectedScene = Inr draggingBR"
  by (simp add: handleMouseDown_def selectedScene_sel selectedScene_pos Let_def selectionMouseDown_def
      selectedScene_selectedHandleAt draggingBR_def)

lemma resizeElement_BR_example: "resizeElement BR (exampleElement ''a'' Rectangle 0 0 100 50) 10 5 55 (exampleElement ''a'' Rectangle 0 0 100 50)
     = Inr ((exampleElement ''a'' Rectangle 0 0 100 50)\<lparr> e_customData := Some \<lparr> entryRatio = None \<rparr> \<rparr>)"
  by (simp add: resizeElement_corner spreadCustomData_def exampleElement_sel orZero_def)

text \<open>
  Claim C1 (the code departs from it). A pointer-down on the bottom-right corner of the
  selected 100 by 50 rectangle starts a resize with the handle \<open>br\<close>; dragging the
  pointer by \<open>(10, 5)\<close> then leaves the rectangle's origin, width (100) and height (50)
  as they were, where the claim gives width 110 and height 55: the resizing branch
  looks for the letters n, s, e, w in the handle's name, and the corner handles are
  named \<open>tl\<close>, \<open>tr\<close>, \<open>bl\<close>, \<open>br\<close>.
\<close>

theorem corner_resize_br_unchanged:
  "handleMouseDown (exampleEvent 100 50) selectedScene = Inr draggingBR
   \<and> resizeHandle (interactionState draggingBR) = Some BR
   \<and> handleMouseMove (exampleEvent 110 55) draggingBR =
       Inr (draggingBR\<lparr> hoveredElementId := None,
              elements := [(exampleElement ''a'' Rectangle 0 0 100 50)
                             \<lparr> e_customData := Some \<lparr> entryRatio = None \<rparr> \<rparr>] \<rparr>)
   \<and> e_width ((exampleElement ''a'' Rectangle 0 0 100 50)
                 \<lparr> e_customData := Some \<lparr> entryRatio = None \<rparr> \<rparr>) = Some 100
   \<and> e_height ((exampleElement ''a'' Rectangle 0 0 100 50)
                 \<lparr> e_customData := Some \<lparr> entryRatio = None \<rparr> \<rparr>) = Some 50"
proof -
  have move: "handleMouseMove (exampleEvent 110 55) draggingBR =
       Inr (draggingBR\<lparr> hoveredElementId := None,
              elements := [(exampleElement ''a'' Rectangle 0 0 100 50)
                             \<lparr> e_customData := Some \<lparr> entryRatio = None \<rparr> \<rparr>] \<rparr>)"
    by (simp add: handleMouseMove_def draggingBR_sel draggingBR_pos Let_def
        resizeElement_BR_example exampleElement_sel)
  show ?thesis
    using selectedScene_down move by (simp add: draggingBR_sel exampleElement_sel)
qed

section \<open>Eraser\<close>

lemma eraser_move_gen:
  assumes sc: "scale s \<noteq> 0"
    and tl: "effectiveTool s = Eraser"
    and md: "mode (interactionState s) = Drawing"
    and cur: "currentElement s \<noteq> None"
  shows "handleMouseMove e s =
     Inr (s\<lparr> hoveredElementId := None,
            elements := filter (eraserKeeps s (px (getMousePos e s)) (py (getMousePos e s))) (elements s) \<rparr>)"
proof -
  from cur obtain c where c: "currentElement s = Some c" by auto
  have d: "drawingMouseMove (getMousePos e s) s (s\<lparr> hoveredElementId := None \<rparr>) =
      s\<lparr> hoveredElementId := None,
         elements := filter (eraserKeeps s (px (getMousePos e s)) (py (getMousePos e s))) (elements s) \<rparr>"
    by (simp add: drawingMouseMove_def c tl)
  show ?thesis
    by (simp add: handleMouseMove_def sc tl md Let_def d)
qed

lemma sqrt_900: "sqrt 900 = 30"
  by (rule real_sqrt_unique) simp_all

lemma sqrt_25: "sqrt 25 = 5"
  by (rule real_sqrt_unique) simp_all

lemma sqrt_961: "sqrt 961 = 31"
  by (rule real_sqrt_unique) simp_all

lemma erasingScene_sel:
  "scale erasingScene = 1" "eraserSize erasingScene = 30"
  "panOffset erasingScene = \<lparr> px = 0, py = 0 \<rparr>"
  "effectiveTool erasingScene = Eraser"
  "mode (interactionState erasingScene) = Drawing"
  "currentElement erasingScene \<noteq> None"
  "elements erasingScene = [exampleElement ''edge'' Rectangle 130 100 10 10,
                     exampleElement ''far'' Rectangle 131 100 10 10,
                     exampleElement ''near'' Rectangle 103 104 10 10]"
  by (simp_all add: erasingScene_def initialState_def effectiveTool_def interaction_def)

lemma erasingScene_keeps:
  "\<not> eraserKeeps erasingScene 100 100 (exampleElement ''edge'' Rectangle 130 100 10 10)"
  "eraserKeeps erasingScene 100 100 (exampleElement ''far'' Rectangle 131 100 10 10)"
  "\<not> eraserKeeps erasingScene 100 100 (exampleElement ''near'' Rectangle 103 104 10 10)"
proof -
  show "\<not> eraserKeeps erasingScene 100 100 (exampleElement ''edge'' Rectangle 130 100 10 10)"
    by (simp add: eraserKeeps_def erasingScene_sel exampleElement_sel sqrt_900)
  show "eraserKeeps erasingScene 100 100 (exampleElement ''far'' Rectangle 131 100 10 10)"
    by (simp add: eraserKeeps_def erasingScene_sel exampleElement_sel sqrt_961)
  show "\<not> eraserKeeps erasingScene 100 100 (exampleElement ''near'' Rectangle 103 104 10 10)"
    by (simp add: eraserKeeps_def erasingScene_sel exampleElement_sel sqrt_25)
qed

lemma erasingScene_pos: "getMousePos (exampleEvent 100 100) erasingScene = \<lparr> px = 100, py = 100 \<rparr>"
  by (simp add: getMousePos_def exampleEvent_sel erasingScene_sel)

text \<open>
  Claim C2, amended. During an eraser drag (eraser tool, drawing mode, an element in
  progress, scale not 0) a pointer-move at the world point \<open>p\<close> keeps, in their order,
  exactly the elements whose origin is at a distance from \<open>p\<close> strictly greater than
  \<open>eraserSize / scale\<close>: it removes the elements whose origin is within that distance
  or exactly at it.
\<close>

theorem eraser_removes_closed_disc:
  assumes "scale s \<noteq> 0"
    and "effectiveTool s = Eraser"
    and "mode (interactionState s) = Drawing"
    and "currentElement s \<noteq> None"
  shows "\<exists>s'. handleMouseMove e s = Inr s'
           \<and> elements s' =
               filter (\<lambda>el. \<not> sqrt ((e_x el - px (getMousePos e s))\<^sup>2
                                   + (e_y el - py (getMousePos e s))\<^sup>2)
                              \<le> eraserSize s / scale s)
                 (elements s)"
proof -
  have "eraserKeeps s (px (getMousePos e s)) (py (getMousePos e s)) =
          (\<lambda>el. \<not> sqrt ((e_x el - px (getMousePos e s))\<^sup>2
                           + (e_y el - py (getMousePos e s))\<^sup>2)
                     \<le> eraserSize s / scale s)"
    by (rule ext) (simp add: eraserKeeps_def Let_def not_le)
  with eraser_move_gen [OF assms, of e] show ?thesis
    by simp
qed

theorem eraser_removes_closed_disc_witness:
  "scale erasingScene \<noteq> 0 \<and> effectiveTool erasingScene = Eraser
   \<and> mode (interactionState erasingScene) = Drawing
   \<and> currentElement erasingScene \<noteq> None
   \<and> (\<exists>s'. handleMouseMove (exampleEvent 100 100) erasingScene = Inr s'
          \<and> elements s' = [exampleElement ''far'' Rectangle 131 100 10 10])"
proof -
  have hyps: "scale erasingScene \<noteq> 0" "effectiveTool erasingScene = Eraser"
    "mode (interactionState erasingScene) = Drawing" "currentElement erasingScene \<noteq> None"
    by (simp_all add: erasingScene_sel)
  have k: "filter (eraserKeeps erasingScene 100 100) (elements erasingScene) =
      [exampleElement ''far'' Rectangle 131 100 10 10]"
    by (simp add: erasingScene_sel erasingScene_keeps)
  have "eraserKeeps erasingScene 100 100 =
          (\<lambda>el. \<not> sqrt ((e_x el - 100)\<^sup>2 + (e_y el - 100)\<^sup>2)
                     \<le> eraserSize erasingScene / scale erasingScene)"
    by (rule ext) (simp add: eraserKeeps_def Let_def not_le)
  with k eraser_removes_closed_disc [OF hyps, of "exampleEvent 100 100"] hyps show ?thesis
    by (simp add: erasingScene_pos)
qed

text \<open>
  Claim C2 as stated fails: with eraser size 30 and scale 1, a pointer-move at
  \<open>(100, 100)\<close> removes the element whose origin \<open>(130, 100)\<close> is at distance exactly 30.
\<close>

theorem eraser_boundary_counterexample:
  "eraserSize erasingScene / scale erasingScene = 30
   \<and> sqrt ((e_x (exampleElement ''edge'' Rectangle 130 100 10 10) - 100)\<^sup>2
          + (e_y (exampleElement ''edge'' Rectangle 130 100 10 10) - 100)\<^sup>2) = 30
   \<and> exampleElement ''edge'' Rectangle 130 100 10 10 \<in> set (elements erasingScene)
   \<and> handleMouseMove (exampleEvent 100 100) erasingScene =
       Inr (erasingScene\<lparr> hoveredElementId := None,
              elements := [exampleElement ''far'' Rectangle 131 100 10 10] \<rparr>)
   \<and> exampleElement ''edge'' Rectangle 130 100 10 10
        \<noteq> exampleElement ''far'' Rectangle 131 100 10 10"
proof -
  have hyps: "scale erasingScene \<noteq> 0" "effectiveTool erasingScene = Eraser"
    "mode (interactionState erasingScene) = Drawing" "currentElement erasingScene \<noteq> None"
    by (simp_all add: erasingScene_sel)
  have k: "filter (eraserKeeps erasingScene 100 100) (elements erasingScene) =
      [exampleElement ''far'' Rectangle 131 100 10 10]"
    by (simp add: erasingScene_sel erasingScene_keeps)
  have m: "handleMouseMove (exampleEvent 100 100) erasingScene =
       Inr (erasingScene\<lparr> hoveredElementId := None,
              elements := [exampleElement ''far'' Rectangle 131 100 10 10] \<rparr>)"
    using eraser_move_gen [OF hyps, of "exampleEvent 100 100"] by (simp add: erasingScene_pos k)
  have ne: "exampleElement ''edge'' Rectangle 130 100 10 10
        \<noteq> exampleElement ''far'' Rectangle 131 100 10 10"
  proof
    assume "exampleElement ''edge'' Rectangle 130 100 10 10
        = exampleElement ''far'' Rectangle 131 100 10 10"
    then have "e_x (exampleElement ''edge'' Rectangle 130 100 10 10)
        = e_x (exampleElement ''far'' Rectangle 131 100 10 10)" by simp
    then show False by (simp add: exampleElement_sel)
  qed
  show ?thesis
    using m ne by (simp add: erasingScene_sel exampleElement_sel sqrt_900)
qed

section \<open>Pointer-down with a drawing tool\<close>

lemma baseElement_sel:
  "e_id (baseElement s i t x y) = i"
  "e_type (baseElement s i t x y) = t"
  "e_x (baseElement s i t x y) = x"
  "e_y (baseElement s i t x y) = y"
  "e_width (baseElement s i t x y) = Some 0"
  "e_height (baseElement s i t x y) = Some 0"
  "e_points (baseElement s i t x y) = None"
  "e_customData (baseElement s i t x y) = None"
  by (simp_all add: baseElement_def)

lemma drawing_down_gen:
  assumes sc: "scale s \<noteq> 0"
    and t: "effectiveTool s \<noteq> Laser" "effectiveTool s \<noteq> Hand" "effectiveTool s \<noteq> Selection"
      "effectiveTool s \<noteq> Text" "effectiveTool s \<noteq> Path"
  shows "handleMouseDown e s =
    Inr (s\<lparr> interactionState := interaction Drawing (getMousePos e s),
           currentElement :=
             Some (if effectiveTool s = Pencil then
                     (baseElement s (dateNow e) (effectiveTool s)
                        (px (getMousePos e s)) (py (getMousePos e s)))
                       \<lparr> e_points := Some [\<lparr> px = px (getMousePos e s), py = py (getMousePos e s) \<rparr>] \<rparr>
                   else if effectiveTool s = Long_position \<or> effectiveTool s = Short_position then
                     (baseElement s (dateNow e) (effectiveTool s)
                        (px (getMousePos e s)) (py (getMousePos e s)))
                       \<lparr> e_width := Some 100, e_height := Some 100,
                         e_customData := Some \<lparr> entryRatio = Some 0.5 \<rparr> \<rparr>
                   else baseElement s (dateNow e) (effectiveTool s)
                        (px (getMousePos e s)) (py (getMousePos e s))) \<rparr>)"
  unfolding handleMouseDown_def Let_def by (simp only: sc t if_False)

text \<open>
  Claim C3, amended. With any of the tools rectangle, diamond, ellipse, arrow, line,
  pencil, long position and short position active (space not held, scale not 0), a
  pointer-down starts a drawing and creates an in-progress element of the tool's kind
  whose origin is the click point. For rectangle, diamond, ellipse, arrow and line its
  width and height are 0; for pencil they are 0 and the point sequence is the click
  point alone; for the two position markers the width and the height are 100 and the
  entry ratio is 0.5.
\<close>

theorem drawing_pointer_down:
  assumes sc: "scale s \<noteq> 0"
    and sp: "\<not> isSpacePressed s"
    and tl: "tool s \<in> {Rectangle, Diamond, Ellipse, Arrow, Line, Pencil,
                       Long_position, Short_position}"
  shows "\<exists>s' el. handleMouseDown e s = Inr s'
           \<and> currentElement s' = Some el
           \<and> mode (interactionState s') = Drawing
           \<and> e_type el = tool s
           \<and> e_x el = px (getMousePos e s) \<and> e_y el = py (getMousePos e s)
           \<and> (tool s \<in> {Rectangle, Diamond, Ellipse, Arrow, Line} \<longrightarrow>
                 e_width el = Some 0 \<and> e_height el = Some 0 \<and> e_points el = None)
           \<and> (tool s = Pencil \<longrightarrow>
                 e_points el = Some [getMousePos e s]
                 \<and> e_width el = Some 0 \<and> e_height el = Some 0)
           \<and> (tool s \<in> {Long_position, Short_position} \<longrightarrow>
                 e_width el = Some 100 \<and> e_height el = Some 100
                 \<and> e_customData el = Some \<lparr> entryRatio = Some 0.5 \<rparr>)"
proof -
  have eff: "effectiveTool s = tool s"
    using sp by (simp add: effectiveTool_def)
  have t: "effectiveTool s \<noteq> Laser" "effectiveTool s \<noteq> Hand" "effectiveTool s \<noteq> Selection"
      "effectiveTool s \<noteq> Text" "effectiveTool s \<noteq> Path"
    using tl unfolding eff by fastforce+
  define pos where "pos = getMousePos e s"
  define b where "b = baseElement s (dateNow e) (tool s) (px pos) (py pos)"
  define el where "el =
     (if tool s = Pencil then b\<lparr> e_points := Some [\<lparr> px = px pos, py = py pos \<rparr>] \<rparr>
      else if tool s = Long_position \<or> tool s = Short_position then
        b\<lparr> e_width := Some 100, e_height := Some 100,
           e_customData := Some \<lparr> entryRatio = Some 0.5 \<rparr> \<rparr>
      else b)"
  define s' where "s' = s\<lparr> interactionState := interaction Drawing pos,
                            currentElement := Some el \<rparr>"
  have d: "handleMouseDown e s = Inr s'"
    using drawing_down_gen [OF sc t, of e] unfolding eff s'_def el_def b_def pos_def .
  have b_sel: "e_type b = tool s" "e_x b = px pos" "e_y b = py pos"
    "e_width b = Some 0" "e_height b = Some 0" "e_points b = None"
    by (simp_all add: b_def baseElement_sel)
  have point: "\<lparr> px = px pos, py = py pos \<rparr> = pos"
    by simp
  show ?thesis
    unfolding pos_def [symmetric]
  proof (intro exI conjI)
    show "handleMouseDown e s = Inr s'" by (rule d)
    show "currentElement s' = Some el" by (simp add: s'_def)
    show "mode (interactionState s') = Drawing" by (simp add: s'_def interaction_def)
    show "e_type el = tool s" by (simp add: el_def b_sel)
    show "e_x el = px pos" by (simp add: el_def b_sel)
    show "e_y el = py pos" by (simp add: el_def b_sel)
    show "tool s \<in> {Rectangle, Diamond, Ellipse, Arrow, Line} \<longrightarrow>
            e_width el = Some 0 \<and> e_height el = Some 0 \<and> e_points el = None"
      by (simp add: el_def b_sel)
    show "tool s = Pencil \<longrightarrow>
            e_points el = Some [pos] \<and> e_width el = Some 0 \<and> e_height el = Some 0"
      by (simp add: el_def b_sel)
    show "tool s \<in> {Long_position, Short_position} \<longrightarrow>
            e_width el = Some 100 \<and> e_height el = Some 100
            \<and> e_customData el = Some \<lparr> entryRatio = Some 0.5 \<rparr>"
      by (simp add: el_def b_sel)
  qed
qed

lemma toolState_sel:
  "scale (toolState t) = 1" "isSpacePressed (toolState t) = False" "tool (toolState t) = t"
  "effectiveTool (toolState t) = t" "panOffset (toolState t) = \<lparr> px = 0, py = 0 \<rparr>"
  by (simp_all add: toolState_def initialState_def effectiveTool_def)

lemma toolState_pos: "getMousePos (exampleEvent a b) (toolState t) = \<lparr> px = a, py = b \<rparr>"
  by (simp add: getMousePos_def exampleEvent_sel toolState_sel)

lemma toolState_base:
  "baseElement (toolState t) i k x y = baseElement (initialState False) i k x y"
  by (simp add: baseElement_def toolState_def)

theorem drawing_pointer_down_witness:
  "scale (toolState Rectangle) \<noteq> 0 \<and> \<not> isSpacePressed (toolState Rectangle)
   \<and> tool (toolState Rectangle) = Rectangle
   \<and> (\<exists>s' el. handleMouseDown (exampleEvent 10 20) (toolState Rectangle) = Inr s'
          \<and> currentElement s' = Some el \<and> e_type el = Rectangle
          \<and> e_x el = 10 \<and> e_y el = 20 \<and> e_width el = Some 0 \<and> e_height el = Some 0)
   \<and> scale (toolState Pencil) \<noteq> 0 \<and> \<not> isSpacePressed (toolState Pencil)
   \<and> tool (toolState Pencil) = Pencil
   \<and> (\<exists>s' el. handleMouseDown (exampleEvent 10 20) (toolState Pencil) = Inr s'
          \<and> currentElement s' = Some el \<and> e_type el = Pencil
          \<and> e_points el = Some [\<lparr> px = 10, py = 20 \<rparr>])
   \<and> scale (toolState Short_position) \<noteq> 0 \<and> \<not> isSpacePressed (toolState Short_position)
   \<and> tool (toolState Short_position) = Short_position
   \<and> (\<exists>s' el. handleMouseDown (exampleEvent 10 20) (toolState Short_position) = Inr s'
          \<and> currentElement s' = Some el \<and> e_type el = Short_position
          \<and> e_x el = 10 \<and> e_y el = 20 \<and> e_width el = Some 100 \<and> e_height el = Some 100)"
proof -
  have hyp: "scale (toolState t) \<noteq> 0" "\<not> isSpacePressed (toolState t)" for t
    by (simp_all add: toolState_sel)
  have r: "tool (toolState Rectangle) \<in> {Rectangle, Diamond, Ellipse, Arrow, Line, Pencil,
                       Long_position, Short_position}"
    and p: "tool (toolState Pencil) \<in> {Rectangle, Diamond, Ellipse, Arrow, Line, Pencil,
                       Long_position, Short_position}"
    and q: "tool (toolState Short_position) \<in> {Rectangle, Diamond, Ellipse, Arrow, Line, Pencil,
                       Long_position, Short_position}"
    by (simp_all add: toolState_sel)
  from drawing_pointer_down [OF hyp r, of "exampleEvent 10 20"]
  have a: "\<exists>s' el. handleMouseDown (exampleEvent 10 20) (toolState Rectangle) = Inr s'
          \<and> currentElement s' = Some el \<and> e_type el = Rectangle
          \<and> e_x el = 10 \<and> e_y el = 20 \<and> e_width el = Some 0 \<and> e_height el = Some 0"
    by (simp add: toolState_sel toolState_pos) blast
  from drawing_pointer_down [OF hyp p, of "exampleEvent 10 20"]
  have b: "\<exists>s' el. handleMouseDown (exampleEvent 10 20) (toolState Pencil) = Inr s'
          \<and> currentElement s' = Some el \<and> e_type el = Pencil
          \<and> e_points el = Some [\<lparr> px = 10, py = 20 \<rparr>]"
    by (simp add: toolState_sel toolState_pos) blast
  from drawing_pointer_down [OF hyp q, of "exampleEvent 10 20"]
  have c: "\<exists>s' el. handleMouseDown (exampleEvent 10 20) (toolState Short_position) = Inr s'
          \<and> currentElement s' = Some el \<and> e_type el = Short_position
          \<and> e_x el = 10 \<and> e_y el = 20 \<and> e_width el = Some 100 \<and> e_height el = Some 100"
    by (simp add: toolState_sel toolState_pos) blast
  from a b c show ?thesis
    by (simp add: toolState_sel)
qed

text \<open>
  Claim C3 as stated fails for the position markers: a pointer-down at \<open>(10, 20)\<close>
  with the long-position tool creates an element of width 100 and height 100.
\<close>

theorem position_marker_start_counterexample:
  "tool (toolState Long_position) = Long_position
   \<and> \<not> isSpacePressed (toolState Long_position)
   \<and> handleMouseDown (exampleEvent 10 20) (toolState Long_position) =
       Inr ((toolState Long_position)
              \<lparr> interactionState := interaction Drawing \<lparr> px = 10, py = 20 \<rparr>,
                currentElement :=
                  Some ((exampleElement ''1700000000000'' Long_position 10 20 100 100)
                          \<lparr> e_customData := Some \<lparr> entryRatio = Some 0.5 \<rparr> \<rparr>) \<rparr>)
   \<and> e_width ((exampleElement ''1700000000000'' Long_position 10 20 100 100)
                 \<lparr> e_customData := Some \<lparr> entryRatio = Some 0.5 \<rparr> \<rparr>) \<noteq> Some 0
   \<and> e_height ((exampleElement ''1700000000000'' Long_position 10 20 100 100)
                 \<lparr> e_customData := Some \<lparr> entryRatio = Some 0.5 \<rparr> \<rparr>) \<noteq> Some 0"
proof -
  have t: "effectiveTool (toolState Long_position) \<noteq> Laser"
    "effectiveTool (toolState Long_position) \<noteq> Hand"
    "effectiveTool (toolState Long_position) \<noteq> Selection"
    "effectiveTool (toolState Long_position) \<noteq> Text"
    "effectiveTool (toolState Long_position) \<noteq> Path"
    by (simp_all add: toolState_sel)
  have sc: "scale (toolState Long_position) \<noteq> 0"
    by (simp add: toolState_sel)
  have d: "dateNow (exampleEvent 10 20) = ''1700000000000''"
    by (simp add: exampleEvent_def)
  have "handleMouseDown (exampleEvent 10 20) (toolState Long_position) =
       Inr ((toolState Long_position)
              \<lparr> interactionState := interaction Drawing \<lparr> px = 10, py = 20 \<rparr>,
                currentElement :=
                  Some ((exampleElement ''1700000000000'' Long_position 10 20 100 100)
                          \<lparr> e_customData := Some \<lparr> entryRatio = Some 0.5 \<rparr> \<rparr>) \<rparr>)"
    using drawing_down_gen [OF sc t, of "exampleEvent 10 20"]
    by (simp add: toolState_sel toolState_pos toolState_base d exampleElement_def)
  then show ?thesis
    by (simp add: toolState_sel exampleElement_sel)
qed

section \<open>Box selection\<close>

lemma set_fold_arrayFromSet:
  "set (fold (\<lambda>v acc. if v \<in> set acc then acc else acc @ [v]) xs acc) = set xs \<union> set acc"
  by (induction xs arbitrary: acc) auto

lemma set_arrayFromSet: "set (arrayFromSet xs) = set xs"
  by (simp add: arrayFromSet_def set_fold_arrayFromSet)

lemma box_release_gen:
  assumes m: "mode (interactionState s) = Selection_box"
    and sb: "selectionBox s = Some box"
    and t: "effectiveTool s \<noteq> Path" "effectiveTool s \<noteq> Laser"
  shows "handleMouseUp e sameArray s =
     Inr (s\<lparr> selectedElementIds :=
               (if shiftKey e
                then arrayFromSet (selectedElementIds s
                                    @ map e_id (filter (inSelectionBox box) (elements s)))
                else map e_id (filter (inSelectionBox box) (elements s))),
            selectionBox := None,
            interactionState := interaction Mode_none \<lparr> px = 0, py = 0 \<rparr>,
            currentElement := None \<rparr>)"
  unfolding handleMouseUp_def Let_def
  by (simp add: m sb t split: option.split)

text \<open>
  Claim C4. On release of a box selection with drag rectangle \<open>R\<close> (the rectangle
  spanned by the start and the current point of the box), the new selection holds the
  identifier of an element exactly when the element's bounds (\<open>getElementBounds\<close>) lie
  within \<open>R\<close> on all four sides, so an element that overlaps \<open>R\<close> only in part is left
  out; with shift held the identifiers selected before are kept as well (union),
  without shift the new selection is exactly the identifiers of the elements within
  \<open>R\<close>, in scene order.
\<close>

theorem box_selection_release:
  assumes "mode (interactionState s) = Selection_box"
    and "selectionBox s = Some box"
    and "effectiveTool s \<noteq> Path" and "effectiveTool s \<noteq> Laser"
  shows "\<exists>s'. handleMouseUp e sameArray s = Inr s'
           \<and> selectionBox s' = None
           \<and> (\<forall>i. i \<in> set (selectedElementIds s') \<longleftrightarrow>
                  (shiftKey e \<and> i \<in> set (selectedElementIds s))
                  \<or> (\<exists>el \<in> set (elements s). e_id el = i
                        \<and> min (px (sb_start box)) (px (sb_current box)) \<le> minX (getElementBounds el)
                        \<and> maxX (getElementBounds el) \<le> max (px (sb_start box)) (px (sb_current box))
                        \<and> min (py (sb_start box)) (py (sb_current box)) \<le> minY (getElementBounds el)
                        \<and> maxY (getElementBounds el) \<le> max (py (sb_start box)) (py (sb_current box))))
           \<and> (\<not> shiftKey e \<longrightarrow>
                 selectedElementIds s' =
                   map e_id (filter (\<lambda>el.
                       min (px (sb_start box)) (px (sb_current box)) \<le> minX (getElementBounds el)
                     \<and> maxX (getElementBounds el) \<le> max (px (sb_start box)) (px (sb_current box))
                     \<and> min (py (sb_start box)) (py (sb_current box)) \<le> minY (getElementBounds el)
                     \<and> maxY (getElementBounds el) \<le> max (py (sb_start box)) (py (sb_current box)))
                     (elements s)))"
proof -
  define inside where "inside = (\<lambda>el.
      min (px (sb_start box)) (px (sb_current box)) \<le> minX (getElementBounds el)
    \<and> maxX (getElementBounds el) \<le> max (px (sb_start box)) (px (sb_current box))
    \<and> min (py (sb_start box)) (py (sb_current box)) \<le> minY (getElementBounds el)
    \<and> maxY (getElementBounds el) \<le> max (py (sb_start box)) (py (sb_current box)))"
  have w: "inSelectionBox box = inside"
    by (rule ext) (simp add: inSelectionBox_def inside_def Let_def)
  define ids where "ids = map e_id (filter inside (elements s))"
  define sel where "sel = (if shiftKey e then arrayFromSet (selectedElementIds s @ ids) else ids)"
  define s' where "s' = s\<lparr> selectedElementIds := sel, selectionBox := None,
            interactionState := interaction Mode_none \<lparr> px = 0, py = 0 \<rparr>,
            currentElement := None \<rparr>"
  have up: "handleMouseUp e sameArray s = Inr s'"
    using box_release_gen [OF assms, of e sameArray]
    unfolding s'_def sel_def ids_def w .
  have ids_set: "i \<in> set ids \<longleftrightarrow> (\<exists>el \<in> set (elements s). e_id el = i \<and> inside el)" for i
    unfolding ids_def by fastforce
  have sel_set: "i \<in> set sel \<longleftrightarrow>
      (shiftKey e \<and> i \<in> set (selectedElementIds s))
      \<or> (\<exists>el \<in> set (elements s). e_id el = i \<and> inside el)" for i
    unfolding sel_def using ids_set [of i] by (simp add: set_arrayFromSet)
  have sel_s': "selectedElementIds s' = sel" and box_s': "selectionBox s' = None"
    by (simp_all add: s'_def)
  have noshift: "\<not> shiftKey e \<longrightarrow> selectedElementIds s' = map e_id (filter inside (elements s))"
    by (simp add: sel_s' sel_def ids_def)
  have "\<exists>s'. handleMouseUp e sameArray s = Inr s'
           \<and> selectionBox s' = None
           \<and> (\<forall>i. i \<in> set (selectedElementIds s') \<longleftrightarrow>
                  (shiftKey e \<and> i \<in> set (selectedElementIds s))
                  \<or> (\<exists>el \<in> set (elements s). e_id el = i \<and> inside el))
           \<and> (\<not> shiftKey e \<longrightarrow> selectedElementIds s' = map e_id (filter inside (elements s)))"
  proof (intro exI conjI)
    show "handleMouseUp e sameArray s = Inr s'" by (rule up)
    show "selectionBox s' = None" by (rule box_s')
    show "\<forall>i. i \<in> set (selectedElementIds s') \<longleftrightarrow>
                  (shiftKey e \<and> i \<in> set (selectedElementIds s))
                  \<or> (\<exists>el \<in> set (elements s). e_id el = i \<and> inside el)"
      unfolding sel_s' using sel_set by blast
    show "\<not> shiftKey e \<longrightarrow> selectedElementIds s' = map e_id (filter inside (elements s))"
      by (rule noshift)
  qed
  then show ?thesis
    unfolding inside_def .
qed

lemma exampleElement_bounds:
  assumes "t \<noteq> Path" and "t \<noteq> Pencil"
  shows "getElementBounds (exampleElement i t x y w h) =
           \<lparr> minX = min x (x + w), maxX = max x (x + w),
             minY = min y (y + h), maxY = max y (y + h) \<rparr>"
  using assms by (simp add: getElementBounds_def exampleElement_sel orZero_def Let_def)

lemma boxScene_sel:
  "mode (interactionState boxScene) = Selection_box"
  "selectionBox boxScene = Some \<lparr> sb_start = \<lparr> px = 0, py = 0 \<rparr>,
                                  sb_current = \<lparr> px = 50, py = 50 \<rparr> \<rparr>"
  "effectiveTool boxScene = Selection"
  "selectedElementIds boxScene = [''c'']"
  "elements boxScene = [exampleElement ''a'' Rectangle 10 10 20 20,
                        exampleElement ''b'' Rectangle 40 40 100 100,
                        exampleElement ''c'' Ellipse 200 200 10 10]"
  by (simp_all add: boxScene_def initialState_def effectiveTool_def interaction_def)

theorem box_selection_release_witness:
  "mode (interactionState boxScene) = Selection_box
   \<and> selectionBox boxScene = Some \<lparr> sb_start = \<lparr> px = 0, py = 0 \<rparr>,
                                     sb_current = \<lparr> px = 50, py = 50 \<rparr> \<rparr>
   \<and> effectiveTool boxScene \<noteq> Path \<and> effectiveTool boxScene \<noteq> Laser
   \<and> \<not> shiftKey (exampleEvent 50 50)
   \<and> (\<exists>s'. handleMouseUp (exampleEvent 50 50) False boxScene = Inr s'
          \<and> selectedElementIds s' = [''a''])
   \<and> shiftKey ((exampleEvent 50 50)\<lparr> shiftKey := True \<rparr>)
   \<and> (\<exists>s'. handleMouseUp ((exampleEvent 50 50)\<lparr> shiftKey := True \<rparr>) False boxScene = Inr s'
          \<and> ''a'' \<in> set (selectedElementIds s') \<and> ''c'' \<in> set (selectedElementIds s')
          \<and> ''b'' \<notin> set (selectedElementIds s'))"
proof -
  have hyps: "mode (interactionState boxScene) = Selection_box"
    "selectionBox boxScene = Some \<lparr> sb_start = \<lparr> px = 0, py = 0 \<rparr>,
                                    sb_current = \<lparr> px = 50, py = 50 \<rparr> \<rparr>"
    "effectiveTool boxScene \<noteq> Path" "effectiveTool boxScene \<noteq> Laser"
    by (simp_all add: boxScene_sel)
  have ns: "\<not> shiftKey (exampleEvent 50 50)"
    by (simp add: exampleEvent_sel)
  define inside where "inside = (\<lambda>el.
      min (0::real) 50 \<le> minX (getElementBounds el) \<and> maxX (getElementBounds el) \<le> max 0 50
    \<and> min (0::real) 50 \<le> minY (getElementBounds el) \<and> maxY (getElementBounds el) \<le> max 0 50)"
  have ins: "inside (exampleElement ''a'' Rectangle 10 10 20 20)"
    "\<not> inside (exampleElement ''b'' Rectangle 40 40 100 100)"
    "\<not> inside (exampleElement ''c'' Ellipse 200 200 10 10)"
    by (simp_all add: inside_def exampleElement_bounds)
  from box_selection_release [OF hyps, of "exampleEvent 50 50" False]
  obtain s1 where up1: "handleMouseUp (exampleEvent 50 50) False boxScene = Inr s1"
    and sel1: "\<not> shiftKey (exampleEvent 50 50) \<longrightarrow>
                 selectedElementIds s1 = map e_id (filter inside (elements boxScene))"
    unfolding inside_def by (simp add: boxScene_sel(2)) blast
  have "selectedElementIds s1 = [''a'']"
    using sel1 ns by (simp add: boxScene_sel ins exampleElement_sel)
  with up1 have a: "\<exists>s'. handleMouseUp (exampleEvent 50 50) False boxScene = Inr s'
          \<and> selectedElementIds s' = [''a'']"
    by blast
  from box_selection_release [OF hyps, of "(exampleEvent 50 50)\<lparr> shiftKey := True \<rparr>" False]
  obtain s2 where up2: "handleMouseUp ((exampleEvent 50 50)\<lparr> shiftKey := True \<rparr>) False boxScene = Inr s2"
    and sel2: "\<forall>i. i \<in> set (selectedElementIds s2) \<longleftrightarrow>
                  (shiftKey ((exampleEvent 50 50)\<lparr> shiftKey := True \<rparr>)
                     \<and> i \<in> set (selectedElementIds boxScene))
                  \<or> (\<exists>el \<in> set (elements boxScene). e_id el = i \<and> inside el)"
    unfolding inside_def by (simp add: boxScene_sel(2)) blast
  have "''a'' \<in> set (selectedElementIds s2)" "''c'' \<in> set (selectedElementIds s2)"
    "''b'' \<notin> set (selectedElementIds s2)"
    by (simp_all add: sel2 boxScene_sel ins exampleElement_sel)
  with up2 have b: "\<exists>s'. handleMouseUp ((exampleEvent 50 50)\<lparr> shiftKey := True \<rparr>) False boxScene = Inr s'
          \<and> ''a'' \<in> set (selectedElementIds s') \<and> ''c'' \<in> set (selectedElementIds s')
          \<and> ''b'' \<notin> set (selectedElementIds s')"
    by blast
  from hyps ns a b show ?thesis
    by simp
qed

section \<open>Resize handles\<close>

lemma find_first_handle:
  "map_option fst (find P ((h, c) # hs)) =
     (if P (h, c) then Some h else map_option fst (find P hs))"
  by simp

text \<open>
  Claim C8, amended. For an element of a box-like kind (rectangle, diamond, ellipse,
  image, long or short position) and scale not 0, \<open>getResizeHandleAtPosition\<close> reports
  the first handle, in the order tl, tr, bl, br and for position markers n, s, entry,
  whose centre is less than \<open>4 / scale\<close> away from the point on both axes (half of the
  handle size 8), and no handle when there is none; for every other kind (path, line,
  text, pencil, arrow among them) it reports no handle at any point.
\<close>

theorem resize_handle_hit:
  assumes "scale s \<noteq> 0"
  shows "(e_type element \<in> set resizableTypes \<longrightarrow>
            getResizeHandleAtPosition s x y element =
              map_option fst
                (find (\<lambda>(h, c). \<bar>x - px c\<bar> < 4 / scale s \<and> \<bar>y - py c\<bar> < 4 / scale s)
                   (handleCenters element)))
         \<and> (e_type element \<notin> set resizableTypes \<longrightarrow>
               getResizeHandleAtPosition s x y element = None)"
proof (intro conjI impI)
  assume "e_type element \<notin> set resizableTypes"
  then show "getResizeHandleAtPosition s x y element = None"
    by (simp add: getResizeHandleAtPosition_def)
next
  assume r: "e_type element \<in> set resizableTypes"
  have rad: "HANDLE_SIZE / 2 / scale s = 4 / scale s"
    by (simp add: HANDLE_SIZE_def)
  show "getResizeHandleAtPosition s x y element =
              map_option fst
                (find (\<lambda>(h, c). \<bar>x - px c\<bar> < 4 / scale s \<and> \<bar>y - py c\<bar> < 4 / scale s)
                   (handleCenters element))"
  proof (cases "e_type element = Long_position \<or> e_type element = Short_position")
    case True
    with r show ?thesis
      unfolding getResizeHandleAtPosition_def handleCenters_def Let_def rad
      by (simp only: find_first_handle find.simps(1) option.map(1) append.simps
          case_prod_conv Point.select_convs simp_thms if_True if_False)
  next
    case False
    with r show ?thesis
      unfolding getResizeHandleAtPosition_def handleCenters_def Let_def rad
      by (simp only: find_first_handle find.simps(1) option.map(1) append.simps
          case_prod_conv Point.select_convs simp_thms if_True if_False)
  qed
qed

lemma example_centers:
  "handleCenters (exampleElement ''a'' Rectangle 0 0 100 50) =
     [(TL, \<lparr> px = 0, py = 0 \<rparr>), (TR, \<lparr> px = 100, py = 0 \<rparr>),
      (BL, \<lparr> px = 0, py = 50 \<rparr>), (BR, \<lparr> px = 100, py = 50 \<rparr>)]"
  by (simp add: handleCenters_def exampleElement_sel orZero_def Let_def)

theorem resize_handle_hit_witness:
  "scale selectedScene \<noteq> 0
   \<and> e_type (exampleElement ''a'' Rectangle 0 0 100 50) \<in> set resizableTypes
   \<and> getResizeHandleAtPosition selectedScene 98 52 (exampleElement ''a'' Rectangle 0 0 100 50)
       = Some BR
   \<and> getResizeHandleAtPosition selectedScene 96 50 (exampleElement ''a'' Rectangle 0 0 100 50)
       = None
   \<and> e_type (exampleElement ''l'' Line 0 0 100 50) \<notin> set resizableTypes
   \<and> getResizeHandleAtPosition selectedScene 100 50 (exampleElement ''l'' Line 0 0 100 50)
       = None"
proof -
  have sc: "scale selectedScene \<noteq> 0"
    by (simp add: selectedScene_sel)
  have k: "e_type (exampleElement ''a'' Rectangle 0 0 100 50) \<in> set resizableTypes"
    "e_type (exampleElement ''l'' Line 0 0 100 50) \<notin> set resizableTypes"
    by (simp_all add: exampleElement_sel resizableTypes_def)
  have a: "getResizeHandleAtPosition selectedScene 98 52 (exampleElement ''a'' Rectangle 0 0 100 50)
       = Some BR"
    using resize_handle_hit [OF sc, of "exampleElement ''a'' Rectangle 0 0 100 50" 98 52] k
    by (simp add: example_centers selectedScene_sel)
  have b: "getResizeHandleAtPosition selectedScene 96 50 (exampleElement ''a'' Rectangle 0 0 100 50)
       = None"
    using resize_handle_hit [OF sc, of "exampleElement ''a'' Rectangle 0 0 100 50" 96 50] k
    by (simp add: example_centers selectedScene_sel)
  have c: "getResizeHandleAtPosition selectedScene 100 50 (exampleElement ''l'' Line 0 0 100 50)
       = None"
    using resize_handle_hit [OF sc, of "exampleElement ''l'' Line 0 0 100 50" 100 50] k
    by simp
  from sc k a b c show ?thesis
    by simp
qed

text \<open>
  Claim C8 as stated fails: at scale 1 the point \<open>(5, 0)\<close> is at distance 5, less than
  8, from the centre \<open>(0, 0)\<close> of the handle tl of the rectangle, and no handle is
  reported there.
\<close>

theorem resize_handle_radius_counterexample:
  "scale selectedScene = 1
   \<and> e_type (exampleElement ''a'' Rectangle 0 0 100 50) = Rectangle
   \<and> (TL, \<lparr> px = 0, py = 0 \<rparr>) \<in> set (handleCenters (exampleElement ''a'' Rectangle 0 0 100 50))
   \<and> sqrt ((5 - 0)\<^sup>2 + (0 - 0)\<^sup>2) < HANDLE_SIZE / scale selectedScene
   \<and> getResizeHandleAtPosition selectedScene 5 0 (exampleElement ''a'' Rectangle 0 0 100 50)
       = None"
proof -
  have "getResizeHandleAtPosition selectedScene 5 0 (exampleElement ''a'' Rectangle 0 0 100 50)
       = None"
    by (simp add: getResizeHandleAtPosition_def exampleElement_sel selectedScene_sel
        resizableTypes_def orZero_def HANDLE_SIZE_def Let_def)
  then show ?thesis
    by (simp add: selectedScene_sel exampleElement_sel example_centers sqrt_25 HANDLE_SIZE_def)
qed

section \<open>Paste\<close>

lemma pasteItem_moveSnapshot:
  "pasteItem offset newId item = (moveSnapshot offset offset item)\<lparr> e_id := newId \<rparr>"
  by (cases "e_points item") (simp_all add: pasteItem_def moveSnapshot_def Let_def)

lemma map_enumerate_nth:
  "map (\<lambda>(i, v). f i v) (enumerate 0 xs) = map (\<lambda>i. f i (xs ! i)) [0..<length xs]"
  by (rule nth_equalityI) (simp_all add: nth_enumerate_eq)

lemma paste_gen:
  assumes c: "clipboard s \<noteq> []" and sc: "scale s \<noteq> 0"
  shows "handlePaste now rnd s =
    Inr ((pushToHistory
            (elements s @ map (\<lambda>i. pasteItem (20 / scale s) (pasteId now rnd i) (clipboard s ! i))
                            [0..<length (clipboard s)])
            (s\<lparr> elements :=
                  elements s @ map (\<lambda>i. pasteItem (20 / scale s) (pasteId now rnd i) (clipboard s ! i))
                                 [0..<length (clipboard s)] \<rparr>))
           \<lparr> selectedElementIds := map (pasteId now rnd) [0..<length (clipboard s)] \<rparr>)"
  using c sc unfolding handlePaste_def Let_def
  by (simp add: map_enumerate_nth)

text \<open>
  Claim C7, amended. Pasting a non-empty clipboard of \<open>k\<close> elements (scale not 0)
  appends exactly \<open>k\<close> new elements to the scene, the \<open>i\<close>-th being the \<open>i\<close>-th clipboard
  element moved by \<open>(20 / scale, 20 / scale)\<close> (origin and, for path and pencil elements,
  every point) with its identifier replaced by the one generated for it, which is the
  clock reading as a string followed by characters 3 to 7 of the random number written
  in base 36; and it sets the selection to exactly these \<open>k\<close> generated identifiers, in
  order. Pasting an empty clipboard changes nothing, the selection included.
\<close>

theorem paste_appends_translated_copies:
  "(clipboard s = [] \<longrightarrow> handlePaste now rnd s = Inr s)
   \<and> (clipboard s \<noteq> [] \<and> scale s \<noteq> 0 \<longrightarrow>
        (\<exists>s' pasted. handlePaste now rnd s = Inr s'
           \<and> elements s' = elements s @ pasted
           \<and> length pasted = length (clipboard s)
           \<and> (\<forall>i < length (clipboard s).
                 pasted ! i = (moveSnapshot (20 / scale s) (20 / scale s) (clipboard s ! i))
                                \<lparr> e_id := now i @ take 5 (drop 2 (rnd i)) \<rparr>)
           \<and> selectedElementIds s' = map e_id pasted
           \<and> selectedElementIds s' =
               map (\<lambda>i. now i @ take 5 (drop 2 (rnd i))) [0..<length (clipboard s)]))"
proof (intro conjI impI)
  assume "clipboard s = []"
  then show "handlePaste now rnd s = Inr s"
    by (simp add: handlePaste_def)
next
  assume nonempty: "clipboard s \<noteq> [] \<and> scale s \<noteq> 0"
  then have c: "clipboard s \<noteq> []" and sc: "scale s \<noteq> 0"
    by simp_all
  define k where "k = length (clipboard s)"
  define pasted where
    "pasted = map (\<lambda>i. pasteItem (20 / scale s) (pasteId now rnd i) (clipboard s ! i)) [0..<k]"
  define s' where
    "s' = (pushToHistory (elements s @ pasted) (s\<lparr> elements := elements s @ pasted \<rparr>))
            \<lparr> selectedElementIds := map (pasteId now rnd) [0..<k] \<rparr>"
  have paste: "handlePaste now rnd s = Inr s'"
    using paste_gen [OF c sc, of now rnd] unfolding s'_def pasted_def k_def .
  have len: "length pasted = k"
    by (simp add: pasted_def)
  have nth: "pasted ! i = (moveSnapshot (20 / scale s) (20 / scale s) (clipboard s ! i))
                            \<lparr> e_id := pasteId now rnd i \<rparr>" if "i < k" for i
    using that by (simp add: pasted_def pasteItem_moveSnapshot)
  have ids: "map e_id pasted = map (pasteId now rnd) [0..<k]"
    by (rule nth_equalityI) (simp_all add: len nth)
  have els: "elements s' = elements s @ pasted"
    by (simp add: s'_def pushToHistory_def Let_def)
  have sel: "selectedElementIds s' = map (pasteId now rnd) [0..<k]"
    by (simp add: s'_def)
  show "\<exists>s' pasted. handlePaste now rnd s = Inr s'
           \<and> elements s' = elements s @ pasted
           \<and> length pasted = length (clipboard s)
           \<and> (\<forall>i < length (clipboard s).
                 pasted ! i = (moveSnapshot (20 / scale s) (20 / scale s) (clipboard s ! i))
                                \<lparr> e_id := now i @ take 5 (drop 2 (rnd i)) \<rparr>)
           \<and> selectedElementIds s' = map e_id pasted
           \<and> selectedElementIds s' =
               map (\<lambda>i. now i @ take 5 (drop 2 (rnd i))) [0..<length (clipboard s)]"
    unfolding k_def [symmetric] pasteId_def [symmetric]
  proof (intro exI conjI)
    show "handlePaste now rnd s = Inr s'" by (rule paste)
    show "elements s' = elements s @ pasted" by (rule els)
    show "length pasted = k" by (rule len)
    show "\<forall>i < k. pasted ! i = (moveSnapshot (20 / scale s) (20 / scale s) (clipboard s ! i))
                                \<lparr> e_id := pasteId now rnd i \<rparr>"
      using nth by blast
    show "selectedElementIds s' = map e_id pasted" by (simp add: sel ids)
    show "selectedElementIds s' = map (pasteId now rnd) [0..<k]" by (rule sel)
  qed
qed

lemma pasteScene_sel:
  "scale pasteScene = 2"
  "clipboard pasteScene = [exampleElement ''a'' Rectangle 0 0 100 50,
                      (exampleElement ''p'' Pencil 1 2 0 0)
                        \<lparr> e_points := Some [\<lparr> px = 1, py = 2 \<rparr>, \<lparr> px = 3, py = 4 \<rparr>] \<rparr>]"
  "elements pasteScene = [exampleElement ''a'' Rectangle 0 0 100 50]"
  "selectedElementIds pasteScene = [''a'']"
  by (simp_all add: pasteScene_def initialState_def)

lemma example_ids:
  "pasteId exampleClock exampleRandom 0 = ''1700000000000k3j9x''"
  "pasteId exampleClock exampleRandom (Suc 0) = ''1700000000000zz17q''"
  "pasteId exampleClock sameRandom i = ''1700000000000k3j9x''"
  by (simp_all add: pasteId_def exampleClock_def exampleRandom_def sameRandom_def)

theorem paste_appends_translated_copies_witness:
  "clipboard selectedScene = []
   \<and> selectedElementIds selectedScene = [''a'']
   \<and> handlePaste exampleClock exampleRandom selectedScene = Inr selectedScene
   \<and> clipboard pasteScene \<noteq> [] \<and> scale pasteScene \<noteq> 0
   \<and> (\<exists>s' pasted. handlePaste exampleClock exampleRandom pasteScene = Inr s'
          \<and> elements s' = exampleElement ''a'' Rectangle 0 0 100 50 # pasted
          \<and> map e_id pasted = [''1700000000000k3j9x'', ''1700000000000zz17q'']
          \<and> selectedElementIds s' = [''1700000000000k3j9x'', ''1700000000000zz17q'']
          \<and> map e_x pasted = [10, 11] \<and> map e_y pasted = [10, 12]
          \<and> map e_points pasted =
                [None, Some [\<lparr> px = 11, py = 12 \<rparr>, \<lparr> px = 13, py = 14 \<rparr>]])"
proof -
  have empty: "clipboard selectedScene = []"
    by (simp add: selectedScene_def initialState_def)
  have unchanged: "handlePaste exampleClock exampleRandom selectedScene = Inr selectedScene"
    by (rule paste_appends_translated_copies
          [of selectedScene exampleClock exampleRandom, THEN conjunct1, THEN mp, OF empty])
  have hyps: "clipboard pasteScene \<noteq> []" "scale pasteScene \<noteq> 0"
    by (simp_all add: pasteScene_sel)
  from paste_appends_translated_copies
         [of pasteScene exampleClock exampleRandom, THEN conjunct2, THEN mp,
          OF conjI [OF hyps], unfolded pasteId_def [symmetric]]
  obtain s' pasted where paste: "handlePaste exampleClock exampleRandom pasteScene = Inr s'"
    and els: "elements s' = elements pasteScene @ pasted"
    and len: "length pasted = length (clipboard pasteScene)"
    and nth: "\<forall>i < length (clipboard pasteScene).
                 pasted ! i = (moveSnapshot (20 / scale pasteScene) (20 / scale pasteScene)
                                 (clipboard pasteScene ! i))
                                \<lparr> e_id := pasteId exampleClock exampleRandom i \<rparr>"
    and sel: "selectedElementIds s' = map e_id pasted"
    by blast
  have len2: "length pasted = 2"
    using len by (simp add: pasteScene_sel)
  then obtain p0 p1 where pasted: "pasted = [p0, p1]"
    by (metis (no_types) Suc_length_conv length_0_conv numeral_2_eq_2)
  have p0: "p0 = (moveSnapshot 10 10 (exampleElement ''a'' Rectangle 0 0 100 50))
                   \<lparr> e_id := ''1700000000000k3j9x'' \<rparr>"
    using nth [rule_format, of 0] by (simp add: pasted pasteScene_sel example_ids)
  have p1: "p1 = (moveSnapshot 10 10
                    ((exampleElement ''p'' Pencil 1 2 0 0)
                        \<lparr> e_points := Some [\<lparr> px = 1, py = 2 \<rparr>, \<lparr> px = 3, py = 4 \<rparr>] \<rparr>))
                   \<lparr> e_id := ''1700000000000zz17q'' \<rparr>"
    using nth [rule_format, of 1] by (simp add: pasted pasteScene_sel example_ids)
  have f0: "e_id p0 = ''1700000000000k3j9x''" "e_x p0 = 10" "e_y p0 = 10" "e_points p0 = None"
    by (simp_all add: p0 moveSnapshot_def exampleElement_sel Let_def)
  have f1: "e_id p1 = ''1700000000000zz17q''" "e_x p1 = 11" "e_y p1 = 12"
    "e_points p1 = Some [\<lparr> px = 11, py = 12 \<rparr>, \<lparr> px = 13, py = 14 \<rparr>]"
    by (simp_all add: p1 moveSnapshot_def exampleElement_sel Let_def)
  show ?thesis
  proof (intro conjI exI)
    show "clipboard selectedScene = []" by (rule empty)
    show "selectedElementIds selectedScene = [''a'']" by (simp add: selectedScene_sel)
    show "handlePaste exampleClock exampleRandom selectedScene = Inr selectedScene"
      by (rule unchanged)
    show "clipboard pasteScene \<noteq> []" "scale pasteScene \<noteq> 0" by (rule hyps)+
    show "handlePaste exampleClock exampleRandom pasteScene = Inr s'" by (rule paste)
    show "elements s' = exampleElement ''a'' Rectangle 0 0 100 50 # pasted"
      by (simp add: els pasteScene_sel)
    show "map e_id pasted = [''1700000000000k3j9x'', ''1700000000000zz17q'']"
      by (simp add: pasted f0 f1)
    show "selectedElementIds s' = [''1700000000000k3j9x'', ''1700000000000zz17q'']"
      by (simp add: sel pasted f0 f1)
    show "map e_x pasted = [10, 11]" "map e_y pasted = [10, 12]"
      by (simp_all add: pasted f0 f1)
    show "map e_points pasted = [None, Some [\<lparr> px = 11, py = 12 \<rparr>, \<lparr> px = 13, py = 14 \<rparr>]]"
      by (simp add: pasted f0 f1)
  qed
qed

text \<open>
  Claim C7 as stated fails in two places. When the clock and the random generator
  return the same strings for both items of a paste, the two new elements get the same
  identifier. And pasting an empty clipboard (\<open>k = 0\<close>) leaves a non-empty selection as
  it is instead of setting it to the (zero) new identifiers.
\<close>

theorem paste_identifiers_counterexample:
  "handlePaste exampleClock sameRandom pasteScene =
     Inr ((pushToHistory
             (elements pasteScene
                @ [pasteItem 10 ''1700000000000k3j9x'' (clipboard pasteScene ! 0),
                   pasteItem 10 ''1700000000000k3j9x'' (clipboard pasteScene ! 1)])
             (pasteScene\<lparr> elements :=
                elements pasteScene
                  @ [pasteItem 10 ''1700000000000k3j9x'' (clipboard pasteScene ! 0),
                     pasteItem 10 ''1700000000000k3j9x'' (clipboard pasteScene ! 1)] \<rparr>))
            \<lparr> selectedElementIds := [''1700000000000k3j9x'', ''1700000000000k3j9x''] \<rparr>)
   \<and> e_id (pasteItem 10 ''1700000000000k3j9x'' (clipboard pasteScene ! 0)) =
       e_id (pasteItem 10 ''1700000000000k3j9x'' (clipboard pasteScene ! 1))
   \<and> clipboard selectedScene = []
   \<and> selectedElementIds selectedScene = [''a'']
   \<and> handlePaste exampleClock exampleRandom selectedScene = Inr selectedScene"
proof -
  have hyps: "clipboard pasteScene \<noteq> []" "scale pasteScene \<noteq> 0"
    by (simp_all add: pasteScene_sel)
  have two: "[0..<length (clipboard pasteScene)] = [0, Suc 0]"
    by (simp add: pasteScene_sel upt_rec)
  have a: "handlePaste exampleClock sameRandom pasteScene =
     Inr ((pushToHistory
             (elements pasteScene
                @ [pasteItem 10 ''1700000000000k3j9x'' (clipboard pasteScene ! 0),
                   pasteItem 10 ''1700000000000k3j9x'' (clipboard pasteScene ! 1)])
             (pasteScene\<lparr> elements :=
                elements pasteScene
                  @ [pasteItem 10 ''1700000000000k3j9x'' (clipboard pasteScene ! 0),
                     pasteItem 10 ''1700000000000k3j9x'' (clipboard pasteScene ! 1)] \<rparr>))
            \<lparr> selectedElementIds := [''1700000000000k3j9x'', ''1700000000000k3j9x''] \<rparr>)"
    unfolding paste_gen [OF hyps] two
    by (simp add: example_ids pasteScene_sel(1))
  have b: "e_id (pasteItem 10 ''1700000000000k3j9x'' (clipboard pasteScene ! 0)) =
       e_id (pasteItem 10 ''1700000000000k3j9x'' (clipboard pasteScene ! 1))"
    by (simp add: pasteItem_moveSnapshot)
  have c: "clipboard selectedScene = []"
    by (simp add: selectedScene_def initialState_def)
  have d: "handlePaste exampleClock exampleRandom selectedScene = Inr selectedScene"
    by (simp add: handlePaste_def c)
  from a b c d show ?thesis
    by (simp add: selectedScene_sel)
qed

section \<open>Rounding to a double\<close>

lemma pow2_powr: "pow2 e = 2 powr (of_int e)"
  by (simp add: pow2_def powr_real_of_int inverse_eq_divide)

lemma pow2_pos: "0 < pow2 e"
  by (simp add: pow2_powr)

lemma roundEven_cases: "roundEven v = \<lfloor>v\<rfloor> \<or> roundEven v = \<lfloor>v\<rfloor> + 1"
  by (simp add: roundEven_def Let_def)

lemma roundEven_of_int: "roundEven (of_int n) = n"
  by (simp add: roundEven_def Let_def)

lemma roundEven_mono:
  assumes "a \<le> b"
  shows "roundEven a \<le> roundEven b"
proof -
  have fl: "\<lfloor>a\<rfloor> \<le> \<lfloor>b\<rfloor>"
    using assms by (rule floor_mono)
  show ?thesis
  proof (cases "\<lfloor>a\<rfloor> < \<lfloor>b\<rfloor>")
    case True
    then show ?thesis
      using roundEven_cases [of a] roundEven_cases [of b] by linarith
  next
    case False
    with fl have eq: "\<lfloor>a\<rfloor> = \<lfloor>b\<rfloor>" by simp
    then show ?thesis
      using assms by (auto simp: roundEven_def Let_def)
  qed
qed

lemma pow2_add: "pow2 (a + b) = pow2 a * pow2 b"
  by (simp add: pow2_powr powr_add)

lemma pow2_mono: "a \<le> b \<Longrightarrow> pow2 a \<le> pow2 b"
  by (simp add: pow2_powr)

lemma pow2_52: "pow2 52 = 4503599627370496" and pow2_53: "pow2 53 = 9007199254740992"
  by (simp_all add: pow2_def)

lemma binade:
  assumes "0 < v"
  shows "pow2 \<lfloor>log 2 v\<rfloor> \<le> v" and "v < pow2 (\<lfloor>log 2 v\<rfloor> + 1)"
  using floor_log_eq_powr_iff [of v 2 "\<lfloor>log 2 v\<rfloor>"] assms
  by (simp_all add: pow2_powr)

lemma toBinary64_pos:
  assumes "0 < v"
  shows "toBinary64 v =
           pow2 (\<lfloor>log 2 v\<rfloor> - 52) * of_int (roundEven (v / pow2 (\<lfloor>log 2 v\<rfloor> - 52)))"
  using assms by (simp add: toBinary64_def Let_def)

lemma toBinary64_pos_range:
  assumes v: "0 < v"
  shows "pow2 \<lfloor>log 2 v\<rfloor> \<le> toBinary64 v" and "toBinary64 v \<le> pow2 (\<lfloor>log 2 v\<rfloor> + 1)"
proof -
  define e where "e = \<lfloor>log 2 v\<rfloor>"
  define u where "u = pow2 (e - 52)"
  have u: "0 < u" by (simp add: u_def pow2_pos)
  have lo: "pow2 e = u * 4503599627370496"
    using pow2_add [of "e - 52" 52] by (simp add: u_def pow2_52)
  have hi: "pow2 (e + 1) = u * 9007199254740992"
    using pow2_add [of "e - 52" 53] by (simp add: u_def pow2_53 add.commute)
  have "u * 4503599627370496 \<le> v" and "v < u * 9007199254740992"
    using binade [OF v] lo hi by (simp_all add: e_def)
  then have q: "of_int 4503599627370496 \<le> v / u" "v / u \<le> of_int 9007199254740992"
    using u by (simp_all add: field_simps)
  have r1: "4503599627370496 \<le> roundEven (v / u)"
    using roundEven_mono [OF q(1)] by (simp only: roundEven_of_int)
  have r2: "roundEven (v / u) \<le> 9007199254740992"
    using roundEven_mono [OF q(2)] by (simp only: roundEven_of_int)
  have t: "toBinary64 v = u * of_int (roundEven (v / u))"
    using toBinary64_pos [OF v] by (simp add: u_def e_def)
  have "u * 4503599627370496 \<le> u * of_int (roundEven (v / u))"
    using r1 u by simp
  then show "pow2 \<lfloor>log 2 v\<rfloor> \<le> toBinary64 v"
    using lo t by (simp add: e_def)
  have "u * of_int (roundEven (v / u)) \<le> u * 9007199254740992"
    using r2 u by simp
  then show "toBinary64 v \<le> pow2 (\<lfloor>log 2 v\<rfloor> + 1)"
    using hi t by (simp add: e_def)
qed

lemma toBinary64_pos_mono:
  assumes a: "0 < a" and ab: "a \<le> b"
  shows "toBinary64 a \<le> toBinary64 b"
proof -
  have b: "0 < b" using a ab by simp
  have e: "\<lfloor>log 2 a\<rfloor> \<le> \<lfloor>log 2 b\<rfloor>"
    using a ab by (intro floor_mono) simp
  show ?thesis
  proof (cases "\<lfloor>log 2 a\<rfloor> = \<lfloor>log 2 b\<rfloor>")
    case True
    define u where "u = pow2 (\<lfloor>log 2 b\<rfloor> - 52)"
    have u: "0 < u" by (simp add: u_def pow2_pos)
    have "a / u \<le> b / u"
      using ab u by (simp add: divide_right_mono)
    then have "roundEven (a / u) \<le> roundEven (b / u)"
      by (rule roundEven_mono)
    then have "u * of_int (roundEven (a / u)) \<le> u * of_int (roundEven (b / u))"
      using u by simp
    then show ?thesis
      using toBinary64_pos [OF a] toBinary64_pos [OF b] True by (simp add: u_def)
  next
    case False
    with e have "\<lfloor>log 2 a\<rfloor> + 1 \<le> \<lfloor>log 2 b\<rfloor>" by simp
    then have "pow2 (\<lfloor>log 2 a\<rfloor> + 1) \<le> pow2 \<lfloor>log 2 b\<rfloor>"
      by (rule pow2_mono)
    with toBinary64_pos_range(2) [OF a] toBinary64_pos_range(1) [OF b] show ?thesis
      by linarith
  qed
qed

lemma toBinary64_minus: "toBinary64 (- v) = - toBinary64 v"
  by (simp add: toBinary64_def Let_def sgn_minus)

lemma toBinary64_pos_gt: "0 < v \<Longrightarrow> 0 < toBinary64 v"
  using toBinary64_pos_range(1) [of v] pow2_pos [of "\<lfloor>log 2 v\<rfloor>"] by linarith

lemma toBinary64_mono:
  assumes "a \<le> b"
  shows "toBinary64 a \<le> toBinary64 b"
proof -
  consider (pos) "0 < a" | (neg) "b < 0" | (mixed) "a \<le> 0" "0 \<le> b"
    using assms by linarith
  then show ?thesis
  proof cases
    case pos
    then show ?thesis using assms by (rule toBinary64_pos_mono)
  next
    case neg
    then have "0 < - b" and "- b \<le> - a" using assms by simp_all
    then have "toBinary64 (- b) \<le> toBinary64 (- a)" by (rule toBinary64_pos_mono)
    then show ?thesis by (simp add: toBinary64_minus)
  next
    case mixed
    have "toBinary64 a \<le> 0"
    proof (cases "a = 0")
      case True then show ?thesis by (simp add: toBinary64_def)
    next
      case False
      with mixed have "0 < - a" by simp
      then have "0 < toBinary64 (- a)" by (rule toBinary64_pos_gt)
      then show ?thesis by (simp add: toBinary64_minus)
    qed
    moreover have "0 \<le> toBinary64 b"
    proof (cases "b = 0")
      case True then show ?thesis by (simp add: toBinary64_def)
    next
      case False
      with mixed have "0 < b" by simp
      then have "0 < toBinary64 b" by (rule toBinary64_pos_gt)
      then show ?thesis by simp
    qed
    ultimately show ?thesis by linarith
  qed
qed

lemma add64_mono: "a \<le> b \<Longrightarrow> add64 a d \<le> add64 b d"
  unfolding add64_def by (rule toBinary64_mono) simp

lemma toBinary64_eval:
  assumes "0 < v" and "pow2 e \<le> v" and "v < pow2 (e + 1)"
  shows "toBinary64 v = pow2 (e - 52) * of_int (roundEven (v / pow2 (e - 52)))"
proof -
  have "\<lfloor>log 2 v\<rfloor> = e"
    using floor_log_eq_powr_iff [of v 2 e] assms by (simp add: pow2_powr)
  with toBinary64_pos [OF assms(1)] show ?thesis by simp
qed

text \<open>
  A value that \<open>toBinary64\<close> returns is a double: rounding it again gives it back.
\<close>

lemma toBinary64_idem: "toBinary64 (toBinary64 v) = toBinary64 v"
proof -
  have pos: "toBinary64 (toBinary64 w) = toBinary64 w" if w: "0 < w" for w
  proof -
    define e where "e = \<lfloor>log 2 w\<rfloor>"
    define u where "u = pow2 (e - 52)"
    define r where "r = roundEven (w / u)"
    have u: "0 < u" by (simp add: u_def pow2_pos)
    have t: "toBinary64 w = u * of_int r"
      using toBinary64_pos [OF w] by (simp add: u_def e_def r_def)
    have lo: "pow2 e = u * 4503599627370496"
      using pow2_add [of "e - 52" 52] by (simp add: u_def pow2_52)
    have hi: "pow2 (e + 1) = u * 9007199254740992"
      using pow2_add [of "e - 52" 53] by (simp add: u_def pow2_53 add.commute)
    have range: "pow2 e \<le> toBinary64 w" "toBinary64 w \<le> pow2 (e + 1)"
      using toBinary64_pos_range [OF w] by (simp_all add: e_def)
    have tw: "0 < toBinary64 w" using w by (rule toBinary64_pos_gt)
    show ?thesis
    proof (cases "toBinary64 w < pow2 (e + 1)")
      case True
      have "toBinary64 (toBinary64 w)
              = pow2 (e - 52) * of_int (roundEven (toBinary64 w / pow2 (e - 52)))"
        using tw range(1) True by (rule toBinary64_eval)
      also have "toBinary64 w / pow2 (e - 52) = of_int r"
        using u by (simp add: t u_def [symmetric])
      finally show ?thesis
        by (simp add: roundEven_of_int t u_def)
    next
      case False
      with range(2) have eq: "toBinary64 w = pow2 (e + 1)" by simp
      have u2: "pow2 (e + 1 - 52) = u * 2"
        using pow2_add [of "e - 52" 1] by (simp add: u_def pow2_def algebra_simps)
      have "pow2 (e + 1) < pow2 (e + 1 + 1)"
        by (simp add: pow2_powr)
      then have "toBinary64 (pow2 (e + 1))
              = pow2 (e + 1 - 52) * of_int (roundEven (pow2 (e + 1) / pow2 (e + 1 - 52)))"
        using pow2_pos [of "e + 1"] by (intro toBinary64_eval) simp_all
      also have "pow2 (e + 1) / pow2 (e + 1 - 52) = of_int 4503599627370496"
        using u u2 by (simp add: hi)
      finally have "toBinary64 (pow2 (e + 1)) = pow2 (e + 1)"
        using u2 by (simp only: roundEven_of_int) (simp add: hi)
      then show ?thesis by (simp add: eq)
    qed
  qed
  consider "v = 0" | "0 < v" | "v < 0" by linarith
  then show ?thesis
  proof cases
    case 1 then show ?thesis by (simp add: toBinary64_def)
  next
    case 2 then show ?thesis by (rule pos)
  next
    case 3
    then have "0 < - v" by simp
    then have "toBinary64 (toBinary64 (- v)) = toBinary64 (- v)" by (rule pos)
    then show ?thesis by (simp add: toBinary64_minus)
  qed
qed






lemma binary64_1_1: "toBinary64 (11 / 10) = 2476979795053773 / 2251799813685248"
  by (subst toBinary64_eval [of _ 0]) (simp_all add: pow2_def roundEven_def Let_def)

lemma binary64_2_2: "toBinary64 (11 / 5) = 2476979795053773 / 1125899906842624"
  by (subst toBinary64_eval [of _ 1]) (simp_all add: pow2_def roundEven_def Let_def)

lemma binary64_3_3: "toBinary64 (33 / 10) = 3715469692580659 / 1125899906842624"
  by (subst toBinary64_eval [of _ 1]) (simp_all add: pow2_def roundEven_def Let_def)

lemma add64_0_0: "add64 0 0 = 0"
  by (simp add: add64_def toBinary64_def)

lemma add64_1_1_2_2:
  "add64 (2476979795053773 / 2251799813685248) (2476979795053773 / 1125899906842624)
     = 7430939385161319 / 2251799813685248"
  unfolding add64_def
  by (subst toBinary64_eval [of _ 1]) (simp_all add: pow2_def roundEven_def Let_def)

lemma add64_sum_3_3:
  "add64 (7430939385161319 / 2251799813685248) (3715469692580659 / 1125899906842624)
     = 7430939385161318 / 1125899906842624"
  unfolding add64_def
  by (subst toBinary64_eval [of _ 2]) (simp_all add: pow2_def roundEven_def Let_def)

lemma add64_1_1_3_3:
  "add64 (2476979795053773 / 2251799813685248) (3715469692580659 / 1125899906842624)
     = 2476979795053773 / 562949953421312"
  unfolding add64_def
  by (subst toBinary64_eval [of _ 2]) (simp_all add: pow2_def roundEven_def Let_def)

lemma add64_4_4_2_2:
  "add64 (2476979795053773 / 562949953421312) (2476979795053773 / 1125899906842624)
     = 7430939385161319 / 1125899906842624"
  unfolding add64_def
  by (subst toBinary64_eval [of _ 2]) (simp_all add: pow2_def roundEven_def Let_def)

lemma add64_2_2_3_3:
  "add64 (2476979795053773 / 1125899906842624) (3715469692580659 / 1125899906842624) = 11 / 2"
  unfolding add64_def
  by (subst toBinary64_eval [of _ 2]) (simp_all add: pow2_def roundEven_def Let_def)

lemma getElementBounds_exact: "getElementBounds = getElementBoundsWith (+)"
  by (rule ext) (simp add: getElementBounds_def getElementBoundsWith_def)

lemma normalizeElement_exact: "normalizeElement = normalizeElementWith (+)"
  by (rule ext) (simp add: normalizeElement_def normalizeElementWith_def)

lemma moveSnapshot_exact: "moveSnapshot = moveSnapshotWith (+)"
  by (intro ext) (simp add: moveSnapshot_def moveSnapshotWith_def)

lemma box_bounds_with:
  assumes "t \<noteq> Path" and "t \<noteq> Pencil"
  shows "getElementBoundsWith add (exampleElement i t x y w h) =
           \<lparr> minX = min x (add x w), maxX = max x (add x w),
             minY = min y (add y h), maxY = max y (add y h) \<rparr>"
  using assms by (simp add: getElementBoundsWith_def exampleElement_sel orZero_def Let_def)


lemma box_move_with:
  assumes "t \<noteq> Path" and "t \<noteq> Pencil"
  shows "moveSnapshotWith add dx dy (exampleElement i t x y w h) =
           exampleElement i t (add x dx) (add y dy) w h"
  using assms
  by (simp add: moveSnapshotWith_def exampleElement_sel Let_def)
     (simp add: exampleElement_def baseElement_def)

section \<open>Normalisation\<close>




section \<open>Translating the bounds\<close>

lemma Math_min_mono_map:
  assumes "\<And>a b. a \<le> b \<Longrightarrow> g a \<le> g b"
  shows "Math_min (g v) (map (\<lambda>p. g (f p)) ps) = g (Math_min v (map f ps))"
proof -
  have m: "mono g" using assms by (simp add: mono_def)
  show ?thesis
    unfolding Math_min_def
    by (induction ps arbitrary: v) (simp_all add: min_of_mono [OF m])
qed

lemma Math_max_mono_map:
  assumes "\<And>a b. a \<le> b \<Longrightarrow> g a \<le> g b"
  shows "Math_max (g v) (map (\<lambda>p. g (f p)) ps) = g (Math_max v (map f ps))"
proof -
  have m: "mono g" using assms by (simp add: mono_def)
  show ?thesis
    unfolding Math_max_def
    by (induction ps arbitrary: v) (simp_all add: max_of_mono [OF m])
qed

lemma Math_min_add64:
  "Math_min (add64 v d) (map (\<lambda>p. add64 (f p) d) ps) = add64 (Math_min v (map f ps)) d"
  by (rule Math_min_mono_map [where g = "\<lambda>a. add64 a d"]) (rule add64_mono)

lemma Math_max_add64:
  "Math_max (add64 v d) (map (\<lambda>p. add64 (f p) d) ps) = add64 (Math_max v (map f ps)) d"
  by (rule Math_max_mono_map [where g = "\<lambda>a. add64 a d"]) (rule add64_mono)

text \<open>
  Claim C9, amended. For every pencil or path element and every \<open>(dx, dy)\<close>, moving the
  element the way the canvas moves elements (the origin and every point, by additions
  of doubles) moves each of \<open>minX\<close>, \<open>maxX\<close> of its bounds by \<open>dx\<close> and each of \<open>minY\<close>,
  \<open>maxY\<close> by \<open>dy\<close>, again by additions of doubles: rounding is monotone, so it commutes
  with the minimum and the maximum over the points.
\<close>

theorem getElementBounds_translate_points:
  assumes "e_type e = Path \<or> e_type e = Pencil"
  shows "getElementBoundsWith add64 (moveSnapshotWith add64 dx dy e) =
           \<lparr> minX = add64 (minX (getElementBoundsWith add64 e)) dx,
             maxX = add64 (maxX (getElementBoundsWith add64 e)) dx,
             minY = add64 (minY (getElementBoundsWith add64 e)) dy,
             maxY = add64 (maxY (getElementBoundsWith add64 e)) dy \<rparr>"
proof (cases "e_points e")
  case None
  with assms show ?thesis
    by (auto simp: getElementBoundsWith_def moveSnapshotWith_def Let_def)
next
  case (Some pts)
  show ?thesis
  proof (cases pts)
    case Nil
    with assms Some show ?thesis
      by (auto simp: getElementBoundsWith_def moveSnapshotWith_def Let_def)
  next
    case (Cons p ps)
    from assms Some Cons show ?thesis
      by (auto simp: getElementBoundsWith_def moveSnapshotWith_def Let_def comp_def
          Math_min_add64 Math_max_add64)
  qed
qed

theorem getElementBounds_translate_points_witness:
  "e_type ((exampleElement ''p'' Pencil (toBinary64 (11 / 10)) 0 0 0)
             \<lparr> e_points := Some [\<lparr> px = toBinary64 (11 / 10), py = 0 \<rparr>,
                                 \<lparr> px = toBinary64 (11 / 5), py = 0 \<rparr>] \<rparr>) = Pencil
   \<and> getElementBoundsWith add64
        (moveSnapshotWith add64 (toBinary64 (33 / 10)) 0
           ((exampleElement ''p'' Pencil (toBinary64 (11 / 10)) 0 0 0)
              \<lparr> e_points := Some [\<lparr> px = toBinary64 (11 / 10), py = 0 \<rparr>,
                                  \<lparr> px = toBinary64 (11 / 5), py = 0 \<rparr>] \<rparr>))
       = \<lparr> minX = 2476979795053773 / 562949953421312, maxX = 11 / 2, minY = 0, maxY = 0 \<rparr>"
proof -
  let ?e = "(exampleElement ''p'' Pencil (toBinary64 (11 / 10)) 0 0 0)
              \<lparr> e_points := Some [\<lparr> px = toBinary64 (11 / 10), py = 0 \<rparr>,
                                  \<lparr> px = toBinary64 (11 / 5), py = 0 \<rparr>] \<rparr>"
  have kind: "e_type ?e = Pencil"
    by (simp add: exampleElement_sel)
  then have hyp: "e_type ?e = Path \<or> e_type ?e = Pencil"
    by simp
  have b: "getElementBoundsWith add64 ?e =
      \<lparr> minX = 2476979795053773 / 2251799813685248, maxX = 2476979795053773 / 1125899906842624,
        minY = 0, maxY = 0 \<rparr>"
    by (simp add: getElementBoundsWith_def exampleElement_sel Math_min_def Math_max_def
        binary64_1_1 binary64_2_2)
  from getElementBounds_translate_points [OF hyp, of "toBinary64 (33 / 10)" 0]
  have "getElementBoundsWith add64 (moveSnapshotWith add64 (toBinary64 (33 / 10)) 0 ?e) =
      \<lparr> minX = 2476979795053773 / 562949953421312, maxX = 11 / 2, minY = 0, maxY = 0 \<rparr>"
    by (simp add: b binary64_3_3 add64_1_1_3_3 add64_2_2_3_3 add64_0_0)
  with kind show ?thesis
    by simp
qed

text \<open>
  Claim C9 as stated fails for the box-like kinds, whose bounds are recomputed from the
  moved origin and the size. For the rectangle with \<open>x\<close> and width the doubles nearest
  to 1.1 and 2.2, moved by the double nearest to 3.3, \<open>maxX\<close> after the move is
  \<open>(x + dx) + width\<close> (6.6000000000000005) while \<open>maxX\<close> before the move plus \<open>dx\<close> is
  \<open>(x + width) + dx\<close> (6.6): they differ in the last place.
\<close>

theorem translate_box_counterexample:
  "e_type (exampleElement ''r'' Rectangle (toBinary64 (11 / 10)) 0 (toBinary64 (11 / 5)) 0)
     = Rectangle
   \<and> maxX (getElementBoundsWith add64
              (moveSnapshotWith add64 (toBinary64 (33 / 10)) 0
                 (exampleElement ''r'' Rectangle
                    (toBinary64 (11 / 10)) 0 (toBinary64 (11 / 5)) 0)))
       = 7430939385161319 / 1125899906842624
   \<and> add64 (maxX (getElementBoundsWith add64
                     (exampleElement ''r'' Rectangle
                        (toBinary64 (11 / 10)) 0 (toBinary64 (11 / 5)) 0)))
        (toBinary64 (33 / 10))
       = 7430939385161318 / 1125899906842624"
proof -
  have m: "moveSnapshotWith add64 (toBinary64 (33 / 10)) 0
             (exampleElement ''r'' Rectangle (toBinary64 (11 / 10)) 0 (toBinary64 (11 / 5)) 0)
           = exampleElement ''r'' Rectangle (2476979795053773 / 562949953421312) 0
               (2476979795053773 / 1125899906842624) 0"
    by (subst box_move_with)
       (simp_all add: binary64_1_1 binary64_2_2 binary64_3_3 add64_1_1_3_3 add64_0_0)
  show ?thesis
    unfolding m
    by (simp add: box_bounds_with exampleElement_sel binary64_1_1 binary64_2_2 binary64_3_3
        add64_1_1_2_2 add64_sum_3_3 add64_4_4_2_2 add64_0_0)
qed

end
